theory Spec2Isabelle
  imports Main
begin

section \<open>Python values and exceptions\<close>

text \<open>
  The bot handles tracker records and decoded inference answers as plain Python
  objects (dicts, lists, strings, numbers, \<open>None\<close>). They are embedded in one
  type of dynamic values. A dict with string keys is an association list in
  insertion order whose first binding of a key is the live one. Text is a list
  of characters read as code points 0..255. A number written with a fraction or
  an exponent is kept as its literal.
\<close>

datatype py =
    PNone
  | PBool bool
  | PInt int
  | PFloat string
  | PStr string
  | PList "py list"
  | PDict "(string \<times> py) list"

datatype error =
    JSONDecodeError
  | KeyError
  | TypeError
  | AttributeError
  | StopIteration
  | OSError
  | APIError
  | RequestException

text \<open>Sequencing of fallible steps: the first exception raised is the outcome.\<close>

definition bind_err :: "error + 'a \<Rightarrow> ('a \<Rightarrow> error + 'b) \<Rightarrow> error + 'b" where
  "bind_err m f = (case m of Inl e \<Rightarrow> Inl e | Inr x \<Rightarrow> f x)"

fun map_err :: "('a \<Rightarrow> error + 'b) \<Rightarrow> 'a list \<Rightarrow> error + 'b list" where
  "map_err f [] = Inr []"
| "map_err f (x # xs) =
     (case f x of Inl e \<Rightarrow> Inl e
      | Inr y \<Rightarrow> (case map_err f xs of Inl e \<Rightarrow> Inl e | Inr ys \<Rightarrow> Inr (y # ys)))"

text \<open>Truth value of an object, as \<open>if x:\<close> and \<open>not x\<close> and \<open>x or y\<close> take it.\<close>

fun py_truthy :: "py \<Rightarrow> bool" where
  "py_truthy PNone = False"
| "py_truthy (PBool b) = b"
| "py_truthy (PInt n) = (n \<noteq> 0)"
| "py_truthy (PFloat l) =
     (\<exists>c \<in> set (takeWhile (\<lambda>c. c \<noteq> CHR ''e'' \<and> c \<noteq> CHR ''E'') l).
        c \<in> set ''123456789'' \<or> c \<in> set ''INa'')"
| "py_truthy (PStr s) = (s \<noteq> [])"
| "py_truthy (PList xs) = (xs \<noteq> [])"
| "py_truthy (PDict kvs) = (kvs \<noteq> [])"

definition py_or :: "py \<Rightarrow> py \<Rightarrow> py" where
  "py_or x y = (if py_truthy x then x else y)"

text \<open>\<open>x.get(k, default)\<close>: only a dict has the method.\<close>

fun py_get :: "py \<Rightarrow> string \<Rightarrow> py \<Rightarrow> error + py" where
  "py_get (PDict kvs) k dflt = Inr (case map_of kvs k of Some v \<Rightarrow> v | None \<Rightarrow> dflt)"
| "py_get _ k dflt = Inl AttributeError"

text \<open>\<open>x[k]\<close> with a string key.\<close>

fun py_item :: "py \<Rightarrow> string \<Rightarrow> error + py" where
  "py_item (PDict kvs) k = (case map_of kvs k of Some v \<Rightarrow> Inr v | None \<Rightarrow> Inl KeyError)"
| "py_item _ k = Inl TypeError"

text \<open>\<open>{**d, k: v}\<close> and \<open>d[k] = v\<close>: a present key keeps its place, a new one goes last.\<close>

fun dict_set :: "string \<Rightarrow> py \<Rightarrow> (string \<times> py) list \<Rightarrow> (string \<times> py) list" where
  "dict_set k v [] = [(k, v)]"
| "dict_set k v (p # ps) = (if fst p = k then (k, v) # ps else p # dict_set k v ps)"

text \<open>\<open>for x in v\<close>: a dict yields its keys, a string its characters.\<close>

fun py_iter :: "py \<Rightarrow> error + py list" where
  "py_iter (PList xs) = Inr xs"
| "py_iter (PDict kvs) = Inr (map (PStr \<circ> fst) kvs)"
| "py_iter (PStr s) = Inr (map (\<lambda>c. PStr [c]) s)"
| "py_iter _ = Inl TypeError"

text \<open>\<open>str.strip()\<close>: the white space among the code points 0..255.\<close>

definition py_space :: "char \<Rightarrow> bool" where
  "py_space c = (c \<in> set [CHR 0x09, CHR 0x0A, CHR 0x0B, CHR 0x0C, CHR 0x0D,
                          CHR 0x1C, CHR 0x1D, CHR 0x1E, CHR 0x1F, CHR 0x20,
                          CHR 0x85, CHR 0xA0])"

definition strip :: "string \<Rightarrow> string" where
  "strip s = rev (dropWhile py_space (rev (dropWhile py_space s)))"

text \<open>
  \<open>len(x)\<close> and the slice \<open>x[:n]\<close>. A slice of a dict raises as well, a
  \<open>TypeError\<close> up to Python 3.11 and a \<open>KeyError\<close> from 3.12; the model
  has the first.
\<close>

fun py_len :: "py \<Rightarrow> error + nat" where
  "py_len (PStr s) = Inr (length s)"
| "py_len (PList xs) = Inr (length xs)"
| "py_len (PDict kvs) = Inr (length kvs)"
| "py_len _ = Inl TypeError"

fun py_slice :: "py \<Rightarrow> nat \<Rightarrow> error + py" where
  "py_slice (PStr s) n = Inr (PStr (take n s))"
| "py_slice (PList xs) n = Inr (PList (take n xs))"
| "py_slice _ n = Inl TypeError"

text \<open>\<open>sep.join(xs)\<close> accepts strings only.\<close>

fun str_of :: "py \<Rightarrow> error + string" where
  "str_of (PStr s) = Inr s"
| "str_of _ = Inl TypeError"

fun intersperse :: "string \<Rightarrow> string list \<Rightarrow> string" where
  "intersperse sep [] = []"
| "intersperse sep [x] = x"
| "intersperse sep (x # y # ys) = x @ sep @ intersperse sep (y # ys)"

definition py_join :: "string \<Rightarrow> py list \<Rightarrow> error + string" where
  "py_join sep xs = bind_err (map_err str_of xs) (\<lambda>ss. Inr (intersperse sep ss))"

text \<open>\<open>x + y\<close> as the bot uses it, on two lists.\<close>

fun py_concat :: "py \<Rightarrow> py \<Rightarrow> error + py list" where
  "py_concat (PList xs) (PList ys) = Inr (xs @ ys)"
| "py_concat _ _ = Inl TypeError"

text \<open>\<open>s.lower()\<close> on the code points 0..255, and \<open>k in s\<close> for strings.\<close>

definition lower_char :: "char \<Rightarrow> char" where
  "lower_char c =
     (let n = (of_char c :: nat) in
      if (65 \<le> n \<and> n \<le> 90) \<or> (192 \<le> n \<and> n \<le> 222 \<and> n \<noteq> 215) then char_of (n + 32) else c)"

fun py_lower :: "py \<Rightarrow> error + string" where
  "py_lower (PStr s) = Inr (map lower_char s)"
| "py_lower _ = Inl AttributeError"

fun contains :: "string \<Rightarrow> string \<Rightarrow> bool" where
  "contains k [] = (k = [])"
| "contains k (c # cs) = (take (length k) (c # cs) = k \<or> contains k cs)"

text \<open>
  A dict keyed by ticket ids (\<open>decision_map\<close>, \<open>all_by_id\<close>) is an association
  list on the keys' values. Lists and dicts cannot be keys. \<open>True\<close> and \<open>False\<close>
  are the keys 1 and 0. On strings, integers, booleans and \<open>None\<close> this is the
  equality of Python's dict keys; the tracker's ids are strings. Python compares
  a float key by its value as a double (\<open>1\<close> and \<open>1.0\<close> are one key), which is
  not modelled: \<open>py_key\<close> leaves a float as its literal, and what is proved
  below of the lookup of an id is stated for ids that are not floats.
\<close>

fun py_hashable :: "py \<Rightarrow> bool" where
  "py_hashable (PList xs) = False"
| "py_hashable (PDict kvs) = False"
| "py_hashable _ = True"

fun py_key :: "py \<Rightarrow> py" where
  "py_key (PBool b) = PInt (if b then 1 else 0)"
| "py_key v = v"

type_synonym idmap = "(py \<times> py) list"

fun idmap_set :: "py \<Rightarrow> py \<Rightarrow> idmap \<Rightarrow> idmap" where
  "idmap_set k v [] = [(k, v)]"
| "idmap_set k v (p # ps) = (if fst p = k then (k, v) # ps else p # idmap_set k v ps)"

text \<open>\<open>{t['id']: t for t in ts}\<close>, the comprehension behind both id-keyed dicts.\<close>

fun by_id :: "py list \<Rightarrow> idmap \<Rightarrow> error + idmap" where
  "by_id [] m = Inr m"
| "by_id (t # ts) m =
     bind_err (py_item t ''id'') (\<lambda>k.
       if py_hashable k then by_id ts (idmap_set (py_key k) t m) else Inl TypeError)"

text \<open>\<open>m.get(k, default)\<close> on such a dict.\<close>

definition idmap_get :: "idmap \<Rightarrow> py \<Rightarrow> py \<Rightarrow> error + py" where
  "idmap_get m k dflt =
     (if py_hashable k
      then Inr (case map_of m (py_key k) of Some v \<Rightarrow> v | None \<Rightarrow> dflt)
      else Inl TypeError)"

section \<open>The JSON decoder\<close>

text \<open>
  \<open>json.loads\<close> belongs to the standard library. The functions of the bot take
  the decoder as an argument \<open>loads\<close>, with \<open>None\<close> for \<open>JSONDecodeError\<close>, so
  what is proved of them holds for every decoder. \<open>json_loads\<close> below is the
  decoder itself for texts over the code points 0..255 (an escape \<open>\u\<close> above
  \<open>00ff\<close> is outside this alphabet and is refused); it is what the concrete
  runs of this theory decode with. The fuel bounds the number of nested calls,
  each of which consumes input.
\<close>

definition json_ws :: "char \<Rightarrow> bool" where
  "json_ws c = (c \<in> set [CHR 0x20, CHR 0x09, CHR 0x0A, CHR 0x0D])"

definition skip_ws :: "string \<Rightarrow> string" where
  "skip_ws = dropWhile json_ws"

definition is_digit :: "char \<Rightarrow> bool" where
  "is_digit c = ((48::nat) \<le> of_char c \<and> of_char c \<le> (57::nat))"

definition hex_val :: "char \<Rightarrow> nat option" where
  "hex_val c =
     (let n = (of_char c :: nat) in
      if 48 \<le> n \<and> n \<le> 57 then Some (n - 48)
      else if 97 \<le> n \<and> n \<le> 102 then Some (n - 87)
      else if 65 \<le> n \<and> n \<le> 70 then Some (n - 55)
      else None)"

definition hex4 :: "char \<Rightarrow> char \<Rightarrow> char \<Rightarrow> char \<Rightarrow> nat option" where
  "hex4 a b c d =
     (case (hex_val a, hex_val b, hex_val c, hex_val d) of
        (Some x, Some y, Some z, Some u) \<Rightarrow> Some (((x * 16 + y) * 16 + z) * 16 + u)
      | _ \<Rightarrow> None)"

definition unescape :: "char \<Rightarrow> char option" where
  "unescape e =
     (if e = CHR 0x22 then Some (CHR 0x22)
      else if e = CHR 0x5C then Some (CHR 0x5C)
      else if e = CHR ''/'' then Some (CHR ''/'')
      else if e = CHR ''b'' then Some (CHR 0x08)
      else if e = CHR ''f'' then Some (CHR 0x0C)
      else if e = CHR ''n'' then Some (CHR 0x0A)
      else if e = CHR ''r'' then Some (CHR 0x0D)
      else if e = CHR ''t'' then Some (CHR 0x09)
      else None)"

text \<open>A string body after its opening quote: the text and the input left.\<close>

fun scan_string :: "string \<Rightarrow> string \<Rightarrow> (string \<times> string) option" where
  "scan_string [] acc = None"
| "scan_string (c # cs) acc =
     (if c = CHR 0x22 then Some (rev acc, cs)
      else if c = CHR 0x5C then
        (case cs of
           [] \<Rightarrow> None
         | e # r \<Rightarrow>
             if e = CHR ''u'' then
               (case r of
                  a # b # c' # d # r' \<Rightarrow>
                    (case hex4 a b c' d of
                       None \<Rightarrow> None
                     | Some n \<Rightarrow> if n < 256 then scan_string r' (char_of n # acc) else None)
                | _ \<Rightarrow> None)
             else (case unescape e of None \<Rightarrow> None | Some x \<Rightarrow> scan_string r (x # acc)))
      else if of_char c < (32::nat) then None
      else scan_string cs (c # acc))"

definition digits_val :: "string \<Rightarrow> int" where
  "digits_val ds = foldl (\<lambda>a c. a * 10 + (int (of_char c) - 48)) 0 ds"

text \<open>
  A number is the longest prefix of the form
  \<open>-?(0|[1-9][0-9]*)(\.[0-9]+)?([eE][-+]?[0-9]+)?\<close>; without fraction and exponent it
  is an \<open>int\<close>. \<open>NaN\<close>, \<open>Infinity\<close> and \<open>-Infinity\<close> are accepted as well.
\<close>

definition int_part :: "string \<Rightarrow> string" where
  "int_part s = (if s \<noteq> [] \<and> hd s = CHR ''0'' then ''0'' else takeWhile is_digit s)"

definition frac_part :: "string \<Rightarrow> string" where
  "frac_part s =
     (if s \<noteq> [] \<and> hd s = CHR ''.'' \<and> takeWhile is_digit (tl s) \<noteq> []
      then CHR ''.'' # takeWhile is_digit (tl s) else [])"

definition exp_part :: "string \<Rightarrow> string" where
  "exp_part s =
     (if s \<noteq> [] \<and> (hd s = CHR ''e'' \<or> hd s = CHR ''E'')
      then (let sg = (if tl s \<noteq> [] \<and> (hd (tl s) = CHR ''+'' \<or> hd (tl s) = CHR ''-'')
                      then [hd (tl s)] else []);
                ed = takeWhile is_digit (drop (length sg) (tl s))
            in if ed = [] then [] else hd s # sg @ ed)
      else [])"

definition scan_number :: "string \<Rightarrow> (py \<times> string) option" where
  "scan_number s =
     (let neg = (s \<noteq> [] \<and> hd s = CHR ''-'');
          s1 = (if neg then tl s else s);
          ip = int_part s1;
          r1 = drop (length ip) s1;
          fp = frac_part r1;
          r2 = drop (length fp) r1;
          ep = exp_part r2;
          r3 = drop (length ep) r2
      in if ip = [] then
           (if take 3 s = ''NaN'' then Some (PFloat ''NaN'', drop 3 s)
            else if take 8 s = ''Infinity'' then Some (PFloat ''Infinity'', drop 8 s)
            else if take 9 s = ''-Infinity'' then Some (PFloat ''-Infinity'', drop 9 s)
            else None)
         else if fp = [] \<and> ep = [] then Some (PInt (if neg then - digits_val ip else digits_val ip), r3)
         else Some (PFloat ((if neg then ''-'' else []) @ ip @ fp @ ep), r3))"

fun parse_value :: "nat \<Rightarrow> string \<Rightarrow> (py \<times> string) option"
and parse_array :: "nat \<Rightarrow> string \<Rightarrow> py list \<Rightarrow> (py \<times> string) option"
and parse_object :: "nat \<Rightarrow> string \<Rightarrow> (string \<times> py) list \<Rightarrow> (py \<times> string) option" where
  "parse_value 0 s = None"
| "parse_value (Suc n) s =
     (if s = [] then None
      else if hd s = CHR 0x22 then
        (case scan_string (tl s) [] of None \<Rightarrow> None | Some (t, r) \<Rightarrow> Some (PStr t, r))
      else if hd s = CHR ''{'' then
        (let r = skip_ws (tl s) in
         if r \<noteq> [] \<and> hd r = CHR ''}'' then Some (PDict [], tl r)
         else parse_object n r [])
      else if hd s = CHR ''['' then
        (let r = skip_ws (tl s) in
         if r \<noteq> [] \<and> hd r = CHR '']'' then Some (PList [], tl r)
         else parse_array n r [])
      else if take 4 s = ''null'' then Some (PNone, drop 4 s)
      else if take 4 s = ''true'' then Some (PBool True, drop 4 s)
      else if take 5 s = ''false'' then Some (PBool False, drop 5 s)
      else scan_number s)"
| "parse_array 0 s acc = None"
| "parse_array (Suc n) s acc =
     (case parse_value n s of
        None \<Rightarrow> None
      | Some (v, r) \<Rightarrow>
          (let r1 = skip_ws r in
           if r1 \<noteq> [] \<and> hd r1 = CHR '']'' then Some (PList (rev (v # acc)), tl r1)
           else if r1 \<noteq> [] \<and> hd r1 = CHR '','' then parse_array n (skip_ws (tl r1)) (v # acc)
           else None))"
| "parse_object 0 s acc = None"
| "parse_object (Suc n) s acc =
     (if s \<noteq> [] \<and> hd s = CHR 0x22 then
        (case scan_string (tl s) [] of
           None \<Rightarrow> None
         | Some (k, r) \<Rightarrow>
             (let r1 = skip_ws r in
              if r1 \<noteq> [] \<and> hd r1 = CHR '':'' then
                (case parse_value n (skip_ws (tl r1)) of
                   None \<Rightarrow> None
                 | Some (v, r2) \<Rightarrow>
                     (let r3 = skip_ws r2 in
                      if r3 \<noteq> [] \<and> hd r3 = CHR ''}'' then Some (PDict (dict_set k v acc), tl r3)
                      else if r3 \<noteq> [] \<and> hd r3 = CHR '','' then
                        parse_object n (skip_ws (tl r3)) (dict_set k v acc)
                      else None))
              else None))
      else None)"

definition json_loads :: "string \<Rightarrow> py option" where
  "json_loads s =
     (case parse_value (2 * length s + 2) (skip_ws s) of
        None \<Rightarrow> None
      | Some (v, r) \<Rightarrow> if skip_ws r = [] then Some v else None)"

section \<open>The two searches for a bracketed substring\<close>

text \<open>
  \<open>re.search(r'\[[\s\S]*\]', text)\<close> and \<open>re.search(r'\{[\s\S]*\}', text)\<close>: the class
  \<open>[\s\S]\<close> matches every character and the star is greedy, so the match goes
  from the first opening bracket to the last closing bracket after it, and there
  is none when no closing bracket follows the first opening one.
\<close>

definition re_search_span :: "char \<Rightarrow> char \<Rightarrow> string \<Rightarrow> string option" where
  "re_search_span l r s =
     (case dropWhile (\<lambda>c. c \<noteq> l) s of
        [] \<Rightarrow> None
      | _ # rest \<Rightarrow>
          (case rev (dropWhile (\<lambda>c. c \<noteq> r) (rev rest)) of
             [] \<Rightarrow> None
           | body \<Rightarrow> Some (l # body)))"

text \<open>
  The two-tier decoding both parsers share: the whole text, and on
  \<open>JSONDecodeError\<close> the matched substring. \<open>None\<close> is the total failure, on
  which each parser returns its fallback.
\<close>

definition two_tier :: "(string \<Rightarrow> py option) \<Rightarrow> char \<Rightarrow> char \<Rightarrow> string \<Rightarrow> py option" where
  "two_tier loads l r text =
     (case loads text of
        Some v \<Rightarrow> Some v
      | None \<Rightarrow> (case re_search_span l r text of None \<Rightarrow> None | Some m \<Rightarrow> loads m))"

section \<open>The environment of a run\<close>

text \<open>
  What a run reads and changes outside its own variables: the two environment
  variables, the state file beside the script (its text when it exists, and
  how writing it goes), the tracker's answer to the query
  for a start boundary, the outcomes of the successive inference calls (an
  answer is the list of its content blocks, each a type and a text; a call
  beyond the list fails like a transport error), the outcome of the webhook
  post (a status code or an exception of \<open>requests\<close>), and the current day (the
  proleptic Gregorian ordinal, day 1 being 0001-01-01). \<open>calls\<close> counts the
  inference calls made, \<open>posted\<close> lists what was handed to the webhook: the
  start boundary, the end date and the release notes of each message.
\<close>

type_synonym response = "(string \<times> string) list"

text \<open>
  How writing the state file goes: the whole text reaches the file; or \<open>open\<close>
  fails and the file is as it was; or \<open>open\<close> succeeds, which empties the file,
  and the write or the flush at the end of the \<open>with\<close> block fails after the
  given number of characters reached the file.
\<close>

datatype write_outcome = Written | OpenFails | WriteFails nat

record world =
  START_DATE :: "string option"
  SLACK_WEBHOOK_URL :: "string option"
  state_file :: "string option"
  state_write :: write_outcome
  tracker :: "py \<Rightarrow> error + py"
  inference :: "(error + response) list"
  calls :: nat
  webhook :: "error + nat"
  posted :: "(py \<times> string \<times> string) list"
  today :: int

section \<open>Checkpoint store\<close>

definition hex_digit :: "nat \<Rightarrow> char" where
  "hex_digit n = ''0123456789abcdef'' ! (n mod 16)"

text \<open>
  A string as \<open>json.dump\<close> writes it: \<open>ensure_ascii\<close> is on by default, so
  every character outside the range from the space to \<open>~\<close> is escaped.
\<close>

definition json_escape :: "char \<Rightarrow> string" where
  "json_escape c =
     (if c = CHR 0x22 then [CHR 0x5C, CHR 0x22]
      else if c = CHR 0x5C then [CHR 0x5C, CHR 0x5C]
      else if c = CHR 0x0A then [CHR 0x5C, CHR ''n'']
      else if c = CHR 0x0D then [CHR 0x5C, CHR ''r'']
      else if c = CHR 0x09 then [CHR 0x5C, CHR ''t'']
      else if c = CHR 0x08 then [CHR 0x5C, CHR ''b'']
      else if c = CHR 0x0C then [CHR 0x5C, CHR ''f'']
      else if of_char c < (32::nat) \<or> (126::nat) < of_char c
        then [CHR 0x5C, CHR ''u'', CHR ''0'', CHR ''0'',
              hex_digit (of_char c div 16), hex_digit (of_char c)]
      else [c])"

definition json_quote :: "string \<Rightarrow> string" where
  "json_quote s = CHR 0x22 # concat (map json_escape s) @ [CHR 0x22]"

text \<open>
  \<open>load_last_run\<close>: no state file is not an error. The decoder \<open>json.load\<close> is
  the argument \<open>loads\<close>; \<open>None\<close> stands for its \<open>JSONDecodeError\<close>.
\<close>

definition load_last_run :: "(string \<Rightarrow> py option) \<Rightarrow> world \<Rightarrow> error + py" where
  "load_last_run loads w =
     (case state_file w of
        None \<Rightarrow> Inr PNone
      | Some content \<Rightarrow>
          (case loads content of
             None \<Rightarrow> Inl JSONDecodeError
           | Some state \<Rightarrow> py_get state ''last_run'' PNone))"

text \<open>The text \<open>json.dump({"last_run": timestamp}, f)\<close> writes.\<close>

definition checkpoint_text :: "string \<Rightarrow> string" where
  "checkpoint_text timestamp = ''{'' @ json_quote ''last_run'' @ '': '' @ json_quote timestamp @ ''}''"

text \<open>
  \<open>save_last_run\<close>: neither \<open>open(STATE_FILE, "w")\<close> nor the block under it is
  inside a \<open>try\<close>, so an \<open>OSError\<close> of either leaves the function. After a
  failure of the write the file holds what had reached it.
\<close>

definition save_last_run :: "string \<Rightarrow> world \<Rightarrow> (error + unit) \<times> world" where
  "save_last_run timestamp w =
     (case state_write w of
        OpenFails \<Rightarrow> (Inl OSError, w)
      | WriteFails n \<Rightarrow>
          (Inl OSError, w\<lparr>state_file := Some (take n (checkpoint_text timestamp))\<rparr>)
      | Written \<Rightarrow> (Inr (), w\<lparr>state_file := Some (checkpoint_text timestamp)\<rparr>))"

section \<open>Dates\<close>

text \<open>
  \<open>strftime("%Y-%m-%d")\<close> of the day with a given ordinal, for the years 1000 to
  9999 (the civil date is computed from the day count in 400-year eras).
\<close>

definition civil_from_ordinal :: "int \<Rightarrow> int \<times> int \<times> int" where
  "civil_from_ordinal n =
     (let z = n + 305;
          era = z div 146097;
          doe = z - era * 146097;
          yoe = (doe - doe div 1460 + doe div 36524 - doe div 146096) div 365;
          doy = doe - (365 * yoe + yoe div 4 - yoe div 100);
          mp = (5 * doy + 2) div 153;
          d = doy - (153 * mp + 2) div 5 + 1;
          m = (if mp < 10 then mp + 3 else mp - 9);
          y = yoe + era * 400 + (if m \<le> 2 then 1 else 0)
      in (y, m, d))"

definition digit_char :: "int \<Rightarrow> char" where
  "digit_char k = char_of (48 + nat (k mod 10))"

definition strftime_ymd :: "int \<Rightarrow> string" where
  "strftime_ymd n =
     (case civil_from_ordinal n of
        (y, m, d) \<Rightarrow>
          [digit_char (y div 1000), digit_char (y div 100), digit_char (y div 10), digit_char y]
          @ ''-'' @ [digit_char (m div 10), digit_char m]
          @ ''-'' @ [digit_char (d div 10), digit_char d])"

section \<open>The inference service\<close>

text \<open>\<open>client.messages.create(...)\<close>: the next outcome of the service.\<close>

definition client_create :: "world \<Rightarrow> (error + response) \<times> world" where
  "client_create w =
     (case inference w of
        [] \<Rightarrow> (Inl APIError, w\<lparr>calls := Suc (calls w)\<rparr>)
      | r # rs \<Rightarrow> (r, w\<lparr>inference := rs, calls := Suc (calls w)\<rparr>))"

text \<open>\<open>next(block.text for block in response.content if block.type == "text").strip()\<close>\<close>

definition response_text :: "response \<Rightarrow> error + string" where
  "response_text content =
     (case filter (\<lambda>b. fst b = ''text'') content of
        [] \<Rightarrow> Inl StopIteration
      | b # _ \<Rightarrow> Inr (strip (snd b)))"

section \<open>Classifier\<close>

text \<open>
  The prompt is text for the inference service, whose answer is an input of its
  own here; of the rendering of a prompt the model keeps every operation that
  can raise, in the order of evaluation, and not the characters produced.
\<close>

definition get_initiative_names :: "py \<Rightarrow> error + py list" where
  "get_initiative_names issue =
     bind_err (py_get issue ''project'' PNone) (\<lambda>project.
       if \<not> py_truthy project then Inr []
       else bind_err (py_get project ''initiatives'' (PDict [])) (\<lambda>inits.
            bind_err (py_get inits ''nodes'' (PList [])) (\<lambda>initiatives.
            bind_err (py_iter initiatives) (map_err (\<lambda>init. py_item init ''name'')))))"

definition get_assignee :: "py \<Rightarrow> error + unit" where
  "get_assignee issue =
     bind_err (py_get issue ''assignee'' PNone) (\<lambda>assignee.
       if \<not> py_truthy assignee then Inr ()
       else bind_err (py_get assignee ''name'' (PStr ''Unknown'')) (\<lambda>_.
            bind_err (py_get assignee ''email'' (PStr [])) (\<lambda>_. Inr ())))"

fun comments_loop :: "py list \<Rightarrow> nat \<Rightarrow> error + unit" where
  "comments_loop [] total_chars = Inr ()"
| "comments_loop (c # cs) total_chars =
     bind_err (py_get c ''user'' PNone) (\<lambda>user_obj.
     bind_err (if py_truthy user_obj then py_get user_obj ''name'' (PStr ''Unknown'')
               else Inr (PStr ''Unknown'')) (\<lambda>user.
     bind_err (py_get c ''body'' PNone) (\<lambda>b.
     bind_err (py_slice (py_or b (PStr [])) 300) (\<lambda>body.
       if \<not> py_truthy body then comments_loop cs total_chars
       else bind_err (py_len body) (\<lambda>n.
              if total_chars + n > 800 then Inr ()
              else comments_loop cs (total_chars + n))))))"

definition get_comments :: "py \<Rightarrow> error + unit" where
  "get_comments issue =
     bind_err (py_get issue ''comments'' (PDict [])) (\<lambda>cs.
     bind_err (py_get cs ''nodes'' (PList [])) (\<lambda>comments.
       if \<not> py_truthy comments then Inr ()
       else bind_err (py_slice comments 5) (\<lambda>first.
            bind_err (py_iter first) (\<lambda>items. comments_loop items 0))))"

text \<open>One entry of \<open>issues_text\<close>, the f-string of a ticket.\<close>

definition issue_entry :: "py \<Rightarrow> error + unit" where
  "issue_entry i =
     bind_err (py_item i ''id'') (\<lambda>_.
     bind_err (py_item i ''title'') (\<lambda>_.
     bind_err (get_assignee i) (\<lambda>_.
     bind_err (get_initiative_names i) (\<lambda>names.
     bind_err (py_join '', '' names) (\<lambda>_.
     bind_err (py_get i ''project'' PNone) (\<lambda>project.
     bind_err (if py_truthy project
               then bind_err (py_get i ''project'' (PDict [])) (\<lambda>p. py_get p ''name'' (PStr ''None''))
               else Inr (PStr ''None'')) (\<lambda>_.
     bind_err (py_get i ''labels'' (PDict [])) (\<lambda>labels.
     bind_err (py_get labels ''nodes'' (PList [])) (\<lambda>nodes.
     bind_err (py_iter nodes) (\<lambda>ls.
     bind_err (map_err (\<lambda>l. py_item l ''name'') ls) (\<lambda>label_names.
     bind_err (py_join '', '' label_names) (\<lambda>_.
     bind_err (py_get i ''description'' PNone) (\<lambda>description.
     bind_err (py_slice (py_or description (PStr ''No description'')) 1500) (\<lambda>_.
     get_comments i))))))))))))))"

definition issues_text :: "py \<Rightarrow> error + unit" where
  "issues_text issues =
     bind_err (py_iter issues) (\<lambda>is.
     bind_err (map_err issue_entry is) (\<lambda>_. Inr ()))"

text \<open>\<open>{**issue, 'reason': reason}\<close>\<close>

fun with_reason :: "py \<Rightarrow> py \<Rightarrow> error + py" where
  "with_reason (PDict kvs) reason = Inr (PDict (dict_set ''reason'' reason kvs))"
| "with_reason _ reason = Inl TypeError"

text \<open>The loop over the tickets, with the three lists it appends to.\<close>

fun assign_issues ::
  "idmap \<Rightarrow> py list \<Rightarrow> py list \<Rightarrow> py list \<Rightarrow> py list \<Rightarrow> error + (py list \<times> py list \<times> py list)" where
  "assign_issues decision_map [] features fixes excluded = Inr (features, fixes, excluded)"
| "assign_issues decision_map (issue # rest) features fixes excluded =
     bind_err (py_item issue ''id'') (\<lambda>k.
     bind_err (idmap_get decision_map k (PDict [])) (\<lambda>d.
     bind_err (py_get d ''decision'' (PStr ''exclude'')) (\<lambda>decision.
     bind_err (py_get d ''reason'' (PStr ''No reason given'')) (\<lambda>reason.
     bind_err (with_reason issue reason) (\<lambda>issue_with_reason.
       if decision = PStr ''feature''
         then assign_issues decision_map rest (features @ [issue_with_reason]) fixes excluded
       else if decision = PStr ''fix''
         then assign_issues decision_map rest features (fixes @ [issue_with_reason]) excluded
       else assign_issues decision_map rest features fixes (excluded @ [issue_with_reason]))))))"

definition empty_partitions :: py where
  "empty_partitions =
     PDict [(''features'', PList []), (''fixes'', PList []), (''excluded'', PList []),
            (''decisions'', PList [])]"

text \<open>What \<open>filter_customer_worthy\<close> does with the answer of the service.\<close>

definition classify_response :: "(string \<Rightarrow> py option) \<Rightarrow> py \<Rightarrow> response \<Rightarrow> error + py" where
  "classify_response loads issues response =
     bind_err (response_text response) (\<lambda>text.
       case two_tier loads (CHR ''['') (CHR '']'') text of
         None \<Rightarrow> Inr empty_partitions
       | Some decisions \<Rightarrow>
           bind_err (py_iter decisions) (\<lambda>ds.
           bind_err (by_id ds []) (\<lambda>decision_map.
           bind_err (py_iter issues) (\<lambda>is.
           bind_err (assign_issues decision_map is [] [] []) (\<lambda>(features, fixes, excluded).
             Inr (PDict [(''features'', PList features), (''fixes'', PList fixes),
                         (''excluded'', PList excluded), (''decisions'', decisions)]))))))"

definition filter_customer_worthy ::
  "(string \<Rightarrow> py option) \<Rightarrow> py \<Rightarrow> world \<Rightarrow> (error + py) \<times> world" where
  "filter_customer_worthy loads issues w =
     (if \<not> py_truthy issues then (Inr (PList []), w)
      else case issues_text issues of
             Inl e \<Rightarrow> (Inl e, w)
           | Inr _ \<Rightarrow>
               (case client_create w of
                  (Inl e, w') \<Rightarrow> (Inl e, w')
                | (Inr response, w') \<Rightarrow> (classify_response loads issues response, w')))"

section \<open>Grouper\<close>

definition backend_keywords :: "string list" where
  "backend_keywords = [''backend'', ''endpoint'', ''api'', ''schema'']"

fun potential_backend :: "py list \<Rightarrow> error + py list" where
  "potential_backend [] = Inr []"
| "potential_backend (e # es) =
     bind_err (py_get e ''reason'' (PStr [])) (\<lambda>r.
     bind_err (py_lower r) (\<lambda>s.
     bind_err (potential_backend es) (\<lambda>rest.
       Inr (if list_ex (\<lambda>keyword. contains keyword s) backend_keywords then e # rest else rest))))"

text \<open>\<open>format_ticket\<close> of the grouper.\<close>

definition group_format_ticket :: "py \<Rightarrow> error + unit" where
  "group_format_ticket t =
     bind_err (py_get t ''assignee'' (PDict [])) (\<lambda>assignee.
     bind_err (if py_truthy assignee then py_get assignee ''name'' (PStr ''Unassigned'')
               else Inr (PStr ''Unassigned'')) (\<lambda>_.
     bind_err (py_get t ''project'' PNone) (\<lambda>project.
     bind_err (if py_truthy project
               then bind_err (py_get t ''project'' (PDict [])) (\<lambda>p. py_get p ''name'' (PStr ''None''))
               else Inr (PStr ''None'')) (\<lambda>_.
     bind_err (py_get t ''updatedAt'' (PStr ''Unknown'')) (\<lambda>u.
     bind_err (py_slice u 10) (\<lambda>_.
     bind_err (py_item t ''id'') (\<lambda>_.
     bind_err (py_item t ''title'') (\<lambda>_. Inr ()))))))))"

text \<open>
  The grouper up to its inference call: \<open>None\<close> is the early return with no
  features and no fixes, otherwise the fixes and \<open>all_tickets\<close>.
\<close>

definition group_prompt :: "py \<Rightarrow> error + (py \<times> py list) option" where
  "group_prompt categorized_issues =
     bind_err (py_get categorized_issues ''features'' (PList [])) (\<lambda>features.
     bind_err (py_get categorized_issues ''fixes'' (PList [])) (\<lambda>fixes.
     bind_err (py_get categorized_issues ''excluded'' (PList [])) (\<lambda>excluded.
       if \<not> py_truthy features \<and> \<not> py_truthy fixes then Inr None
       else bind_err (py_iter excluded) (\<lambda>es.
            bind_err (potential_backend es) (\<lambda>backend.
            bind_err (py_concat features fixes) (\<lambda>ff.
            bind_err (map_err group_format_ticket (ff @ backend)) (\<lambda>_.
              Inr (Some (fixes, ff @ backend)))))))))"

text \<open>\<open>all_by_id.get(tid, {"id": tid, "title": "Unknown"})\<close>\<close>

definition placeholder :: "py \<Rightarrow> py" where
  "placeholder tid = PDict [(''id'', tid), (''title'', PStr ''Unknown'')]"

definition resolve :: "idmap \<Rightarrow> py \<Rightarrow> error + py" where
  "resolve all_by_id tid = idmap_get all_by_id tid (placeholder tid)"

definition enrich_group :: "idmap \<Rightarrow> py \<Rightarrow> error + py" where
  "enrich_group all_by_id grp =
     bind_err (py_item grp ''name'') (\<lambda>name.
     bind_err (py_get grp ''summary'' (PStr [])) (\<lambda>summary.
     bind_err (py_get grp ''tickets'' (PList [])) (\<lambda>tids.
     bind_err (py_iter tids) (\<lambda>ids.
     bind_err (map_err (resolve all_by_id) ids) (\<lambda>tickets.
       Inr (PDict [(''name'', name), (''summary'', summary), (''tickets'', PList tickets)]))))))"

text \<open>The part of the grouper after a result was decoded.\<close>

definition enrich :: "py list \<Rightarrow> py \<Rightarrow> error + py" where
  "enrich all_tickets result =
     bind_err (by_id all_tickets []) (\<lambda>all_by_id.
     bind_err (py_get result ''groups'' (PList [])) (\<lambda>gs.
     bind_err (py_iter gs) (\<lambda>groups.
     bind_err (map_err (enrich_group all_by_id) groups) (\<lambda>enriched_groups.
     bind_err (py_get result ''ungrouped_fixes'' (PList [])) (\<lambda>ungrouped_ids.
     bind_err (py_iter ungrouped_ids) (\<lambda>ids.
     bind_err (map_err (resolve all_by_id) ids) (\<lambda>ungrouped.
       Inr (PDict [(''groups'', PList enriched_groups), (''ungrouped_fixes'', PList ungrouped)]))))))))"

text \<open>What \<open>group_related_tickets\<close> does with the answer of the service.\<close>

definition group_response ::
  "(string \<Rightarrow> py option) \<Rightarrow> py \<Rightarrow> py list \<Rightarrow> response \<Rightarrow> error + py" where
  "group_response loads fixes all_tickets response =
     bind_err (response_text response) (\<lambda>text.
       case two_tier loads (CHR ''{'') (CHR ''}'') text of
         None \<Rightarrow>
           bind_err (py_iter fixes) (\<lambda>fs.
           bind_err (map_err (\<lambda>t. py_item t ''id'') fs) (\<lambda>ids.
             Inr (PDict [(''groups'', PList []), (''ungrouped_fixes'', PList ids)])))
       | Some result \<Rightarrow> enrich all_tickets result)"

definition group_related_tickets ::
  "(string \<Rightarrow> py option) \<Rightarrow> py \<Rightarrow> world \<Rightarrow> (error + py) \<times> world" where
  "group_related_tickets loads categorized_issues w =
     (case group_prompt categorized_issues of
        Inl e \<Rightarrow> (Inl e, w)
      | Inr None \<Rightarrow> (Inr (PDict [(''groups'', PList []), (''ungrouped_fixes'', PList [])]), w)
      | Inr (Some (fixes, all_tickets)) \<Rightarrow>
          (case client_create w of
             (Inl e, w') \<Rightarrow> (Inl e, w')
           | (Inr response, w') \<Rightarrow> (group_response loads fixes all_tickets response, w')))"

section \<open>Drafter\<close>

text \<open>A line of \<open>format_group\<close> and \<open>format_ticket\<close> of the drafter.\<close>

definition draft_ticket :: "nat \<Rightarrow> py \<Rightarrow> error + unit" where
  "draft_ticket cap t =
     bind_err (py_item t ''title'') (\<lambda>_.
     bind_err (py_get t ''description'' PNone) (\<lambda>description.
     bind_err (py_slice (py_or description (PStr ''No description'')) cap) (\<lambda>_. Inr ())))"

definition format_group :: "py \<Rightarrow> error + unit" where
  "format_group grp =
     bind_err (py_get grp ''tickets'' (PList [])) (\<lambda>ts.
     bind_err (py_iter ts) (\<lambda>tickets.
     bind_err (map_err (draft_ticket 800) tickets) (\<lambda>_.
     bind_err (py_item grp ''name'') (\<lambda>_.
     bind_err (py_get grp ''summary'' (PStr ''N/A'')) (\<lambda>_. Inr ())))))"

definition format_ticket :: "py \<Rightarrow> error + unit" where
  "format_ticket t = draft_ticket 1000 t"

definition format_all :: "(py \<Rightarrow> error + unit) \<Rightarrow> py \<Rightarrow> error + unit" where
  "format_all f xs = bind_err (py_iter xs) (\<lambda>l. bind_err (map_err f l) (\<lambda>_. Inr ()))"

text \<open>
  The drafter up to its inference call: \<open>False\<close> is the early return of the
  empty string.
\<close>

definition draft_prompt :: "py \<Rightarrow> py \<Rightarrow> error + bool" where
  "draft_prompt categorized_issues grouped_data =
     bind_err (py_get grouped_data ''groups'' (PList [])) (\<lambda>groups.
     bind_err (py_get grouped_data ''ungrouped_fixes'' (PList [])) (\<lambda>ungrouped_fixes.
     bind_err (py_get categorized_issues ''features'' (PList [])) (\<lambda>features.
     bind_err (py_get categorized_issues ''fixes'' (PList [])) (\<lambda>fixes.
       if \<not> py_truthy features \<and> \<not> py_truthy fixes then Inr False
       else bind_err (if py_truthy groups then format_all format_group groups
                      else if py_truthy features then format_all format_ticket features
                      else Inr ()) (\<lambda>_.
            bind_err (if py_truthy ungrouped_fixes then format_all format_ticket ungrouped_fixes
                      else if py_truthy fixes then format_all format_ticket fixes
                      else Inr ()) (\<lambda>_. Inr True))))))"

definition draft_release_notes :: "py \<Rightarrow> py \<Rightarrow> world \<Rightarrow> (error + string) \<times> world" where
  "draft_release_notes categorized_issues grouped_data w =
     (case draft_prompt categorized_issues grouped_data of
        Inl e \<Rightarrow> (Inl e, w)
      | Inr False \<Rightarrow> (Inr [], w)
      | Inr True \<Rightarrow>
          (case client_create w of
             (Inl e, w') \<Rightarrow> (Inl e, w')
           | (Inr response, w') \<Rightarrow> (response_text response, w')))"

text \<open>\<open>generate_generic_release_notes\<close> of \<open>customer_release_notes.py\<close>: group, then draft.\<close>

definition generate_generic_release_notes ::
  "(string \<Rightarrow> py option) \<Rightarrow> py \<Rightarrow> py \<Rightarrow> world \<Rightarrow> (error + string) \<times> world" where
  "generate_generic_release_notes loads features fixes w =
     (let categorized = PDict [(''features'', features), (''fixes'', fixes), (''excluded'', PList [])]
      in case group_related_tickets loads categorized w of
           (Inl e, w') \<Rightarrow> (Inl e, w')
         | (Inr grouped, w') \<Rightarrow> draft_release_notes categorized grouped w')"

section \<open>Delivery\<close>

definition env_set :: "string option \<Rightarrow> bool" where
  "env_set v = (case v of None \<Rightarrow> False | Some s \<Rightarrow> s \<noteq> [])"

text \<open>\<open>send_to_slack\<close>: every failure of the post is caught and gives \<open>False\<close>.\<close>

definition send_to_slack :: "string \<Rightarrow> py \<Rightarrow> string \<Rightarrow> world \<Rightarrow> bool \<times> world" where
  "send_to_slack release_notes since_date end_date w =
     (if \<not> env_set (SLACK_WEBHOOK_URL w) then (False, w)
      else case webhook w of
             Inl e \<Rightarrow> (False, w)
           | Inr status \<Rightarrow>
               (status = 200, w\<lparr>posted := posted w @ [(since_date, end_date, release_notes)]\<rparr>))"

section \<open>The runs\<close>

text \<open>
  The start boundary of \<open>main\<close> in \<open>changelog_bot.py\<close>: the environment variable
  when it is set to a non-empty string, then the checkpoint when the store has
  a true one, then the day a week before today.
\<close>

definition main_since :: "(string \<Rightarrow> py option) \<Rightarrow> world \<Rightarrow> error + py" where
  "main_since loads w =
     (if env_set (START_DATE w) then Inr (PStr (strip (the (START_DATE w))))
      else bind_err (load_last_run loads w) (\<lambda>last_run.
             if py_truthy last_run then Inr last_run
             else Inr (PStr (strftime_ymd (today w - 7)))))"

text \<open>
  The start boundary of \<open>main\<close> in \<open>customer_release_notes.py\<close>, whose override is
  its argument \<open>since_date\<close>.
\<close>

definition customer_since :: "(string \<Rightarrow> py option) \<Rightarrow> string option \<Rightarrow> world \<Rightarrow> error + py" where
  "customer_since loads since_date w =
     (if env_set since_date then Inr (PStr (the since_date))
      else bind_err (load_last_run loads w) (\<lambda>last_run.
             Inr (if py_truthy last_run then last_run
                  else PStr (strftime_ymd (today w - 7)))))"

text \<open>The three stage listings of \<open>main\<close> and the test that ends the run early.\<close>

definition get_assignee_name :: "py \<Rightarrow> error + unit" where
  "get_assignee_name issue =
     bind_err (py_get issue ''assignee'' PNone) (\<lambda>assignee.
       if \<not> py_truthy assignee then Inr ()
       else bind_err (py_get assignee ''email'' (PStr ''Unknown'')) (\<lambda>email.
            bind_err (py_get assignee ''name'' email) (\<lambda>_. Inr ())))"

definition print_item :: "py \<Rightarrow> error + unit" where
  "print_item item =
     bind_err (py_item item ''title'') (\<lambda>_.
     bind_err (get_assignee_name item) (\<lambda>_.
     bind_err (py_get item ''reason'' (PStr ''N/A'')) (\<lambda>_. Inr ())))"

definition print_stages :: "py \<Rightarrow> error + bool" where
  "print_stages categorized =
     bind_err (py_get categorized ''features'' (PList [])) (\<lambda>features.
     bind_err (py_get categorized ''fixes'' (PList [])) (\<lambda>fixes.
     bind_err (py_get categorized ''excluded'' (PList [])) (\<lambda>excluded.
     bind_err (py_len features) (\<lambda>_.
     bind_err (format_all print_item features) (\<lambda>_.
     bind_err (py_len fixes) (\<lambda>_.
     bind_err (format_all print_item fixes) (\<lambda>_.
     bind_err (py_len excluded) (\<lambda>_.
     bind_err (format_all print_item excluded) (\<lambda>_.
     bind_err (py_len features) (\<lambda>nf.
       if nf \<noteq> 0 then Inr False
       else bind_err (py_len fixes) (\<lambda>nx. Inr (nx = 0))))))))))))"

text \<open>The listing of the groups in stage 4.\<close>

definition print_group_ticket :: "py \<Rightarrow> error + unit" where
  "print_group_ticket ticket =
     bind_err (py_get ticket ''assignee'' (PDict [])) (\<lambda>assignee.
     bind_err (if py_truthy assignee then py_get assignee ''name'' (PStr ''Unassigned'')
               else Inr (PStr ''Unassigned'')) (\<lambda>_.
     bind_err (py_item ticket ''title'') (\<lambda>_. Inr ())))"

definition print_group :: "py \<Rightarrow> error + unit" where
  "print_group grp =
     bind_err (py_item grp ''name'') (\<lambda>_.
     bind_err (py_get grp ''summary'' (PStr ''N/A'')) (\<lambda>_.
     bind_err (py_get grp ''tickets'' (PList [])) (\<lambda>tickets.
       format_all print_group_ticket tickets)))"

definition print_ungrouped :: "py \<Rightarrow> error + unit" where
  "print_ungrouped ticket =
     bind_err (py_get ticket ''id'' (PStr ''Unknown'')) (\<lambda>tid.
     bind_err (py_get ticket ''title'' tid) (\<lambda>_. Inr ()))"

definition print_grouping :: "py \<Rightarrow> error + unit" where
  "print_grouping grouped_data =
     bind_err (py_get grouped_data ''groups'' (PList [])) (\<lambda>groups.
     bind_err (py_get grouped_data ''ungrouped_fixes'' (PList [])) (\<lambda>ungrouped_fixes.
     bind_err (if py_truthy groups
               then bind_err (py_len groups) (\<lambda>_. format_all print_group groups)
               else Inr ()) (\<lambda>_.
       if py_truthy ungrouped_fixes
       then bind_err (py_len ungrouped_fixes) (\<lambda>_. format_all print_ungrouped ungrouped_fixes)
       else Inr ())))"

text \<open>\<open>main\<close> of \<open>changelog_bot.py\<close>; the count of the tickets found is printed before the test.\<close>

definition main :: "(string \<Rightarrow> py option) \<Rightarrow> world \<Rightarrow> (error + unit) \<times> world" where
  "main loads w =
     (case main_since loads w of
        Inl e \<Rightarrow> (Inl e, w)
      | Inr since \<Rightarrow>
     (case tracker w since of
        Inl e \<Rightarrow> (Inl e, w)
      | Inr issues \<Rightarrow>
     (case py_len issues of
        Inl e \<Rightarrow> (Inl e, w)
      | Inr found \<Rightarrow>
     if \<not> py_truthy issues then (Inr (), w)
     else
     (case filter_customer_worthy loads issues w of
        (Inl e, w1) \<Rightarrow> (Inl e, w1)
      | (Inr categorized, w1) \<Rightarrow>
     (case print_stages categorized of
        Inl e \<Rightarrow> (Inl e, w1)
      | Inr True \<Rightarrow> (Inr (), w1)
      | Inr False \<Rightarrow>
     (case group_related_tickets loads categorized w1 of
        (Inl e, w2) \<Rightarrow> (Inl e, w2)
      | (Inr grouped_data, w2) \<Rightarrow>
     (case print_grouping grouped_data of
        Inl e \<Rightarrow> (Inl e, w2)
      | Inr _ \<Rightarrow>
     (case draft_release_notes categorized grouped_data w2 of
        (Inl e, w3) \<Rightarrow> (Inl e, w3)
      | (Inr release_notes, w3) \<Rightarrow>
          save_last_run (strftime_ymd (today w3))
            (snd (send_to_slack release_notes since (strftime_ymd (today w3)) w3))))))))))"

section \<open>The classification and the resolution in the specification's words\<close>

text \<open>
  The specification describes the classifier as a total mapping: each ticket is
  looked up in the decision list by its id and falls back to \<open>exclude\<close> with a
  sentinel reason. These definitions say that directly; the theorems compare
  the loop of the code with them. Where several entries carry one id the last
  one counts, as in a dict built from the list.
\<close>

definition id_ok :: "py \<Rightarrow> bool" where
  "id_ok t = (case py_item t ''id'' of Inr k \<Rightarrow> py_hashable k | Inl e \<Rightarrow> False)"

definition has_id :: "py \<Rightarrow> py \<Rightarrow> bool" where
  "has_id k t = (case py_item t ''id'' of Inr k' \<Rightarrow> py_key k' = py_key k | Inl e \<Rightarrow> False)"

definition find_by_id :: "py list \<Rightarrow> py \<Rightarrow> py option" where
  "find_by_id ts k = (case filter (has_id k) ts of [] \<Rightarrow> None | t # ms \<Rightarrow> Some (last (t # ms)))"

definition field :: "py \<Rightarrow> string \<Rightarrow> py \<Rightarrow> py" where
  "field d k dflt = (case py_get d k dflt of Inr v \<Rightarrow> v | Inl e \<Rightarrow> dflt)"

definition entry_for :: "py list \<Rightarrow> py \<Rightarrow> py option" where
  "entry_for ds issue = (case py_item issue ''id'' of Inr k \<Rightarrow> find_by_id ds k | Inl e \<Rightarrow> None)"

definition verdict :: "py list \<Rightarrow> py \<Rightarrow> py" where
  "verdict ds issue =
     (case entry_for ds issue of
        None \<Rightarrow> PStr ''exclude''
      | Some d \<Rightarrow> field d ''decision'' (PStr ''exclude''))"

definition reason_for :: "py list \<Rightarrow> py \<Rightarrow> py" where
  "reason_for ds issue =
     (case entry_for ds issue of
        None \<Rightarrow> PStr ''No reason given''
      | Some d \<Rightarrow> field d ''reason'' (PStr ''No reason given''))"

definition labelled :: "py list \<Rightarrow> py \<Rightarrow> py" where
  "labelled ds issue =
     (case with_reason issue (reason_for ds issue) of Inr t \<Rightarrow> t | Inl e \<Rightarrow> issue)"

text \<open>The list stored under a key of a result, empty when there is none.\<close>

definition part_of :: "py \<Rightarrow> string \<Rightarrow> py list" where
  "part_of r k = (case py_get r k (PList []) of Inr (PList xs) \<Rightarrow> xs | _ \<Rightarrow> [])"

text \<open>
  A reference resolved against the candidates: a candidate carrying the id
  when there is one, otherwise the object with the two keys \<open>id\<close>, the
  reference itself, and \<open>title\<close>, the string \<open>Unknown\<close>.
\<close>

definition resolved :: "py list \<Rightarrow> py \<Rightarrow> py \<Rightarrow> bool" where
  "resolved all_tickets tid t =
     (if list_ex (has_id tid) all_tickets
      then t \<in> set all_tickets \<and> has_id tid t
      else t = PDict [(''id'', tid), (''title'', PStr ''Unknown'')])"

text \<open>
  A group of the result against the group the service named: the same name, the
  summary (empty when none was given) and each member reference resolved.
\<close>

definition enriched :: "py list \<Rightarrow> py \<Rightarrow> py \<Rightarrow> bool" where
  "enriched all_tickets g eg =
     (py_item eg ''name'' = py_item g ''name'' \<and>
      py_item eg ''summary'' = Inr (field g ''summary'' (PStr [])) \<and>
      list_all2 (resolved all_tickets) (part_of g ''tickets'') (part_of eg ''tickets''))"

text \<open>An id as a tracker or a JSON text gives it, floats apart.\<close>

fun plain_key :: "py \<Rightarrow> bool" where
  "plain_key PNone = True"
| "plain_key (PBool b) = True"
| "plain_key (PInt n) = True"
| "plain_key (PStr s) = True"
| "plain_key _ = False"

definition plain_id :: "py \<Rightarrow> bool" where
  "plain_id t = (case py_item t ''id'' of Inr k \<Rightarrow> plain_key k | Inl e \<Rightarrow> False)"

text \<open>
  The shape of a grouping result the prompt asks for: an object whose \<open>groups\<close>
  are objects with a \<open>name\<close> and a list \<open>tickets\<close> of ids, and whose
  \<open>ungrouped_fixes\<close> is a list of ids; the keys other than \<open>name\<close> may be missing.
\<close>

definition id_list :: "py \<Rightarrow> bool" where
  "id_list v = (case v of PList ids \<Rightarrow> list_all plain_key ids | _ \<Rightarrow> False)"

definition group_shape :: "py \<Rightarrow> bool" where
  "group_shape g =
     (case g of
        PDict kvs \<Rightarrow>
          map_of kvs ''name'' \<noteq> None \<and>
          (case map_of kvs ''tickets'' of None \<Rightarrow> True | Some v \<Rightarrow> id_list v)
      | _ \<Rightarrow> False)"

definition grouping_shape :: "py \<Rightarrow> bool" where
  "grouping_shape r =
     (case r of
        PDict kvs \<Rightarrow>
          (case map_of kvs ''groups'' of
             None \<Rightarrow> True
           | Some (PList gs) \<Rightarrow> list_all group_shape gs
           | Some _ \<Rightarrow> False) \<and>
          (case map_of kvs ''ungrouped_fixes'' of None \<Rightarrow> True | Some v \<Rightarrow> id_list v)
      | _ \<Rightarrow> False)"

section \<open>Sample tickets, answers and environments\<close>

definition ticket_export :: py where
  "ticket_export =
     PDict [(''id'', PStr ''A''), (''title'', PStr ''Add CSV export''),
            (''description'', PNone),
            (''assignee'', PDict [(''name'', PStr ''Ann''), (''email'', PStr ''ann@example.com'')]),
            (''project'', PDict [(''name'', PStr ''Core''),
               (''initiatives'', PDict [(''nodes'', PList [PDict [(''name'', PStr ''Core Product'')]])])]),
            (''labels'', PDict [(''nodes'', PList [PDict [(''name'', PStr ''export'')]])]),
            (''updatedAt'', PStr ''2026-11-01T10:00:00.000Z''),
            (''comments'', PDict [(''nodes'',
               PList [PDict [(''body'', PStr ''Shipped''), (''user'', PDict [(''name'', PStr ''Bo'')])]])])]"

definition ticket_typo :: py where
  "ticket_typo = PDict [(''id'', PStr ''B''), (''title'', PStr ''Fix typo in error toast'')]"

definition ticket_schema :: py where
  "ticket_schema = PDict [(''id'', PStr ''C''), (''title'', PStr ''Refactor internal auth schema'')]"

definition world0 :: world where
  "world0 = \<lparr>START_DATE = None, SLACK_WEBHOOK_URL = None, state_file = None,
             state_write = Written, tracker = (\<lambda>since. Inr (PList [])), inference = [],
             calls = 0, webhook = Inr 200, posted = [], today = 739924\<rparr>"

text \<open>The environment in which the service answers with the given texts, in order.\<close>

definition answering :: "string list \<Rightarrow> world" where
  "answering texts = world0\<lparr>inference := map (\<lambda>t. Inr [(''text'', t)]) texts\<rparr>"

definition decisions_abc :: string where
  \<open>decisions_abc = ''[{"id": "A", "decision": "feature", "reason": "New export"}, {"id": "B", "decision": "fix", "reason": "Copy fix"}, {"id": "C", "decision": "exclude", "reason": "Internal schema work"}]''\<close>

definition decisions_b :: string where
  \<open>decisions_b = ''[{"id": "B", "decision": "fix", "reason": "Copy fix"}]''\<close>

definition grouping_abc :: string where
  \<open>grouping_abc = ''{"groups": [{"name": "Data export", "tickets": ["A", "C", "Z"], "summary": "Export your data"}], "ungrouped_fixes": ["B"]}''\<close>

text \<open>
  Three answers that decode but do not have the shape the prompt asks for: an
  id that is a list, a group without a name, and a list in place of the object.
\<close>

definition grouping_nested_id :: string where
  \<open>grouping_nested_id = ''{"groups": [], "ungrouped_fixes": [["B"]]}''\<close>

definition grouping_unnamed :: string where
  \<open>grouping_unnamed = ''{"groups": [{"tickets": ["B", "Z"]}], "ungrouped_fixes": []}''\<close>

definition grouping_list :: string where
  \<open>grouping_list = ''[{"name": "Fixes", "tickets": ["B"]}]''\<close>

definition decisions_c :: string where
  \<open>decisions_c = ''[{"id": "C", "decision": "exclude", "reason": "Internal schema work"}]''\<close>

definition grouping_b :: string where
  \<open>grouping_b = ''{"groups": [], "ungrouped_fixes": ["B"]}''\<close>

definition fixes_only :: py where
  "fixes_only = PDict [(''features'', PList []), (''fixes'', PList [ticket_typo]), (''excluded'', PList [])]"

text \<open>A run that finds one ticket and excludes it, and a run that ships one fix.\<close>

definition world_excluded :: world where
  "world_excluded = (answering [decisions_c])\<lparr>tracker := (\<lambda>since. Inr (PList [ticket_schema]))\<rparr>"

definition world_fix :: world where
  "world_fix = (answering [decisions_b, grouping_b, ''*Bug fixes / quality of life*''])
     \<lparr>tracker := (\<lambda>since. Inr (PList [ticket_typo])),
      SLACK_WEBHOOK_URL := Some ''https://hooks.example/T''\<rparr>"

text \<open>
  The same run with a state file that cannot be opened for writing, and with
  one whose write fails after the file was emptied.
\<close>

definition world_locked :: world where
  \<open>world_locked = world_fix\<lparr>state_file := Some ''{"last_run": "2026-10-20"}'', state_write := OpenFails\<rparr>\<close>

definition world_full :: world where
  \<open>world_full = world_fix\<lparr>state_file := Some ''{"last_run": "2026-10-20"}'', state_write := WriteFails 0\<rparr>\<close>


section \<open>Properties of the checkpoint store\<close>

lemma save_last_run_written:
  "state_write w = Written \<Longrightarrow>
   save_last_run ts w = (Inr (), w\<lparr>state_file := Some (checkpoint_text ts)\<rparr>)"
  by (simp add: save_last_run_def)

lemma save_last_run_failed:
  "state_write w \<noteq> Written \<Longrightarrow> fst (save_last_run ts w) = Inl OSError"
  by (cases "state_write w") (simp_all add: save_last_run_def)


section \<open>Auxiliary facts\<close>

lemma bind_err_Inr [simp]: "bind_err (Inr x) f = f x"
  by (simp add: bind_err_def)

lemma bind_err_Inl [simp]: "bind_err (Inl e) f = Inl e"
  by (simp add: bind_err_def)

lemma bind_err_eq_Inr: "(bind_err m f = Inr y) = (\<exists>x. m = Inr x \<and> f x = Inr y)"
  by (cases m) simp_all

lemma map_err_map: "(\<And>x. x \<in> set xs \<Longrightarrow> f x = Inr (g x)) \<Longrightarrow> map_err f xs = Inr (map g xs)"
  by (induction xs) simp_all

lemma map_err_length: "map_err f xs = Inr ys \<Longrightarrow> length ys = length xs"
  by (induction xs arbitrary: ys) (auto split: sum.splits)

lemma map_err_all2: "map_err f xs = Inr ys \<Longrightarrow> list_all2 (\<lambda>x y. f x = Inr y) xs ys"
  by (induction xs arbitrary: ys) (auto split: sum.splits)

lemma map_of_idmap_set: "map_of (idmap_set k v m) k' = (if k' = k then Some v else map_of m k')"
  by (induction m) auto

lemma id_ok_item: "id_ok t \<Longrightarrow> \<exists>k. py_item t ''id'' = Inr k \<and> py_hashable k"
  by (auto simp: id_ok_def split: sum.splits)

lemma id_ok_dict: "id_ok t \<Longrightarrow> \<exists>kvs. t = PDict kvs"
  by (cases t) (auto simp: id_ok_def)

lemma by_id_total: "list_all id_ok ts \<Longrightarrow> \<exists>m'. by_id ts m = Inr m'"
proof (induction ts arbitrary: m)
  case Nil
  then show ?case by simp
next
  case (Cons t ts)
  then obtain k where k: "py_item t ''id'' = Inr k" "py_hashable k"
    using id_ok_item by auto
  from Cons show ?case by (simp add: k)
qed

lemma by_id_map_of:
  "by_id ts m = Inr m' \<Longrightarrow>
   map_of m' (py_key k) =
     (case filter (has_id k) ts of [] \<Rightarrow> map_of m (py_key k) | t # ms \<Rightarrow> Some (last (t # ms)))"
proof (induction ts arbitrary: m)
  case Nil
  then show ?case by simp
next
  case (Cons t ts)
  from Cons.prems obtain k' where k': "py_item t ''id'' = Inr k'" "py_hashable k'"
    and rest: "by_id ts (idmap_set (py_key k') t m) = Inr m'"
    by (auto simp: bind_err_eq_Inr split: if_splits)
  have ih: "map_of m' (py_key k) =
     (case filter (has_id k) ts of [] \<Rightarrow> map_of (idmap_set (py_key k') t m) (py_key k)
      | t # ms \<Rightarrow> Some (last (t # ms)))"
    using Cons.IH [OF rest] .
  have hk: "has_id k t = (py_key k' = py_key k)"
    using k' by (simp add: has_id_def)
  show ?case
  proof (cases "filter (has_id k) ts")
    case Nil
    with ih hk show ?thesis by (auto simp: map_of_idmap_set)
  next
    case (Cons a as)
    with ih hk show ?thesis by auto
  qed
qed

lemma by_id_find: "by_id ts [] = Inr m \<Longrightarrow> map_of m (py_key k) = find_by_id ts k"
  by (drule by_id_map_of [where k = k]) (simp add: find_by_id_def split: list.splits)

lemma find_by_id_mem: "find_by_id ts k = Some t \<Longrightarrow> t \<in> set ts \<and> has_id k t"
proof -
  assume a: "find_by_id ts k = Some t"
  then have ne: "filter (has_id k) ts \<noteq> []" and t: "t = last (filter (has_id k) ts)"
    by (auto simp: find_by_id_def split: list.splits)
  then have "t \<in> set (filter (has_id k) ts)" using last_in_set by blast
  then show ?thesis by simp
qed

lemma find_by_id_None: "(find_by_id ts k = None) = (\<not> list_ex (has_id k) ts)"
proof -
  have "(filter (has_id k) ts = []) = (\<not> list_ex (has_id k) ts)"
    by (simp add: filter_empty_conv list_ex_iff)
  then show ?thesis
    by (cases "filter (has_id k) ts") (auto simp: find_by_id_def)
qed

lemma three_way_length:
  "length [x\<leftarrow>xs. f x = a] + length [x\<leftarrow>xs. f x = b] + length [x\<leftarrow>xs. f x \<noteq> a \<and> f x \<noteq> b] = length xs"
  if "a \<noteq> b"
  using that by (induction xs) auto

lemma assign_issues_length:
  "assign_issues dm is f x e = Inr (f', x', e') \<Longrightarrow>
   length f' + length x' + length e' = length f + length x + length e + length is"
proof (induction "is" arbitrary: f x e)
  case Nil
  then show ?case by simp
next
  case (Cons i "is")
  from Cons.prems obtain iw where
    "assign_issues dm is (f @ [iw]) x e = Inr (f', x', e') \<or>
     assign_issues dm is f (x @ [iw]) e = Inr (f', x', e') \<or>
     assign_issues dm is f x (e @ [iw]) = Inr (f', x', e')"
    by (auto simp: bind_err_eq_Inr split: if_splits)
  then show ?case using Cons.IH by fastforce
qed

lemma assign_issues_spec:
  assumes dm: "\<And>k. map_of dm (py_key k) = find_by_id ds k"
    and ds: "list_all id_ok ds"
  shows "list_all id_ok is \<Longrightarrow>
     assign_issues dm is f x e =
       Inr (f @ map (labelled ds) [i\<leftarrow>is. verdict ds i = PStr ''feature''],
            x @ map (labelled ds) [i\<leftarrow>is. verdict ds i = PStr ''fix''],
            e @ map (labelled ds) [i\<leftarrow>is. verdict ds i \<noteq> PStr ''feature'' \<and> verdict ds i \<noteq> PStr ''fix''])"
proof (induction "is" arbitrary: f x e)
  case Nil
  then show ?case by simp
next
  case (Cons i "is")
  then have i: "id_ok i" and rest: "list_all id_ok is" by simp_all
  from i obtain kvs k where kvs: "i = PDict kvs" and k: "py_item i ''id'' = Inr k" "py_hashable k"
    using id_ok_item id_ok_dict by blast
  define d where "d = (case find_by_id ds k of Some v \<Rightarrow> v | None \<Rightarrow> PDict [])"
  have get: "idmap_get dm k (PDict []) = Inr d"
    using k by (simp add: idmap_get_def dm d_def)
  have "\<exists>dkvs. d = PDict dkvs"
  proof (cases "find_by_id ds k")
    case None
    then show ?thesis by (simp add: d_def)
  next
    case (Some v)
    then have "v \<in> set ds" using find_by_id_mem by blast
    with ds have "id_ok v" by (simp add: list_all_iff)
    with Some show ?thesis using id_ok_dict by (auto simp: d_def)
  qed
  then obtain dkvs where dkvs: "d = PDict dkvs" by blast
  have v: "py_get d ''decision'' (PStr ''exclude'') = Inr (verdict ds i)"
    using k dkvs by (auto simp: verdict_def entry_for_def field_def d_def split: option.splits)
  have r: "py_get d ''reason'' (PStr ''No reason given'') = Inr (reason_for ds i)"
    using k dkvs by (auto simp: reason_for_def entry_for_def field_def d_def split: option.splits)
  have l: "with_reason i (reason_for ds i) = Inr (labelled ds i)"
    using kvs by (simp add: labelled_def)
  show ?case
    using Cons.IH [OF rest] by (simp add: k get v r l)
qed


section \<open>Properties of the classifier\<close>

lemma classify_response_failed:
  "response_text response = Inr reply \<Longrightarrow> two_tier loads (CHR ''['') (CHR '']'') reply = None \<Longrightarrow>
   classify_response loads issues response = Inr empty_partitions"
  by (simp add: classify_response_def)

lemma classify_response_decoded:
  assumes "response_text response = Inr reply"
    and "two_tier loads (CHR ''['') (CHR '']'') reply = Some decisions"
    and "py_iter decisions = Inr ds" and "list_all id_ok ds" and "list_all id_ok issues"
  shows "classify_response loads (PList issues) response =
     Inr (PDict [(''features'', PList (map (labelled ds) [i\<leftarrow>issues. verdict ds i = PStr ''feature''])),
                 (''fixes'', PList (map (labelled ds) [i\<leftarrow>issues. verdict ds i = PStr ''fix''])),
                 (''excluded'', PList (map (labelled ds)
                    [i\<leftarrow>issues. verdict ds i \<noteq> PStr ''feature'' \<and> verdict ds i \<noteq> PStr ''fix''])),
                 (''decisions'', decisions)])"
proof -
  from assms(4) obtain dm where dm: "by_id ds [] = Inr dm"
    using by_id_total by blast
  have look: "\<And>k. map_of dm (py_key k) = find_by_id ds k"
    using dm by (rule by_id_find)
  show ?thesis
    using assms(1-3) dm assign_issues_spec [OF look assms(4) assms(5), of "[]" "[]" "[]"]
    by (simp add: classify_response_def)
qed

lemma classify_response_sizes:
  assumes "classify_response loads (PList issues) response = Inr r"
  shows "r = empty_partitions \<or>
     length (part_of r ''features'') + length (part_of r ''fixes'') + length (part_of r ''excluded'')
       = length issues"
proof -
  from assms obtain rt where rt: "response_text response = Inr rt"
    by (auto simp: classify_response_def bind_err_eq_Inr)
  show ?thesis
  proof (cases "two_tier loads (CHR ''['') (CHR '']'') rt")
    case None
    with assms rt show ?thesis by (simp add: classify_response_def)
  next
    case (Some decisions)
    with assms rt obtain dm f x e where
      a: "assign_issues dm issues [] [] [] = Inr (f, x, e)" and
      r: "r = PDict [(''features'', PList f), (''fixes'', PList x), (''excluded'', PList e),
                     (''decisions'', decisions)]"
      by (auto simp: classify_response_def bind_err_eq_Inr)
    from assign_issues_length [OF a] r show ?thesis
      by (simp add: part_of_def)
  qed
qed

lemma filter_customer_worthy_call:
  assumes "issues \<noteq> []" and "issues_text (PList issues) = Inr u"
    and "inference w = Inr response # rest"
  shows "filter_customer_worthy loads (PList issues) w =
     (classify_response loads (PList issues) response, w\<lparr>inference := rest, calls := Suc (calls w)\<rparr>)"
  using assms by (simp add: filter_customer_worthy_def client_create_def split: sum.splits)

lemma filter_customer_worthy_returns:
  assumes "issues \<noteq> []" and "fst (filter_customer_worthy loads (PList issues) w) = Inr r"
  shows "\<exists>response. classify_response loads (PList issues) response = Inr r"
  using assms
  by (auto simp: filter_customer_worthy_def client_create_def split: sum.splits list.splits prod.splits)

text \<open>
  C1, as amended. Let the classifier be given a non-empty list of tickets.
  Whenever it returns, it returns either the empty partitions of the total
  parse failure (whose sizes add up to 0, not to the number of tickets) or
  partitions whose sizes add up to the number of tickets. It returns the empty
  partitions when the prompt renders, the service answers and neither tier
  decodes the answer. When a tier decodes the answer to a collection of entries
  that each carry a hashable id, and each ticket carries a hashable id, it
  returns the three partitions of the specification: every ticket, with the
  reason of its entry attached, is in \<open>features\<close>, in \<open>fixes\<close> or in \<open>excluded\<close>
  according to its verdict, and so in exactly one of them.
\<close>

theorem partition_completeness:
  assumes "issues \<noteq> []"
  shows "(fst (filter_customer_worthy loads (PList issues) w) = Inr r \<longrightarrow>
            r = empty_partitions \<or>
            length (part_of r ''features'') + length (part_of r ''fixes'') + length (part_of r ''excluded'')
              = length issues) \<and>
         (issues_text (PList issues) = Inr () \<and> inference w = Inr response # rest \<and>
          response_text response = Inr reply \<and> two_tier loads (CHR ''['') (CHR '']'') reply = None \<longrightarrow>
            fst (filter_customer_worthy loads (PList issues) w) = Inr empty_partitions) \<and>
         (issues_text (PList issues) = Inr () \<and> inference w = Inr response # rest \<and>
          response_text response = Inr reply \<and>
          two_tier loads (CHR ''['') (CHR '']'') reply = Some decisions \<and>
          py_iter decisions = Inr ds \<and> list_all id_ok ds \<and> list_all id_ok issues \<longrightarrow>
            fst (filter_customer_worthy loads (PList issues) w) =
              Inr (PDict [(''features'', PList (map (labelled ds) [i\<leftarrow>issues. verdict ds i = PStr ''feature''])),
                          (''fixes'', PList (map (labelled ds) [i\<leftarrow>issues. verdict ds i = PStr ''fix''])),
                          (''excluded'', PList (map (labelled ds)
                             [i\<leftarrow>issues. verdict ds i \<noteq> PStr ''feature'' \<and> verdict ds i \<noteq> PStr ''fix''])),
                          (''decisions'', decisions)]) \<and>
            length [i\<leftarrow>issues. verdict ds i = PStr ''feature''] + length [i\<leftarrow>issues. verdict ds i = PStr ''fix'']
              + length [i\<leftarrow>issues. verdict ds i \<noteq> PStr ''feature'' \<and> verdict ds i \<noteq> PStr ''fix'']
              = length issues)"
proof (intro conjI impI)
  assume "fst (filter_customer_worthy loads (PList issues) w) = Inr r"
  with assms obtain resp where "classify_response loads (PList issues) resp = Inr r"
    using filter_customer_worthy_returns by blast
  then show "r = empty_partitions \<or>
     length (part_of r ''features'') + length (part_of r ''fixes'') + length (part_of r ''excluded'')
       = length issues"
    by (rule classify_response_sizes)
next
  assume a: "issues_text (PList issues) = Inr () \<and> inference w = Inr response # rest \<and>
          response_text response = Inr reply \<and> two_tier loads (CHR ''['') (CHR '']'') reply = None"
  then show "fst (filter_customer_worthy loads (PList issues) w) = Inr empty_partitions"
    using assms by (simp add: filter_customer_worthy_call classify_response_failed)
next
  assume a: "issues_text (PList issues) = Inr () \<and> inference w = Inr response # rest \<and>
          response_text response = Inr reply \<and>
          two_tier loads (CHR ''['') (CHR '']'') reply = Some decisions \<and>
          py_iter decisions = Inr ds \<and> list_all id_ok ds \<and> list_all id_ok issues"
  then show "fst (filter_customer_worthy loads (PList issues) w) =
              Inr (PDict [(''features'', PList (map (labelled ds) [i\<leftarrow>issues. verdict ds i = PStr ''feature''])),
                          (''fixes'', PList (map (labelled ds) [i\<leftarrow>issues. verdict ds i = PStr ''fix''])),
                          (''excluded'', PList (map (labelled ds)
                             [i\<leftarrow>issues. verdict ds i \<noteq> PStr ''feature'' \<and> verdict ds i \<noteq> PStr ''fix''])),
                          (''decisions'', decisions)])"
    using assms by (simp add: filter_customer_worthy_call classify_response_decoded)
next
  show "length [i\<leftarrow>issues. verdict ds i = PStr ''feature''] + length [i\<leftarrow>issues. verdict ds i = PStr ''fix'']
              + length [i\<leftarrow>issues. verdict ds i \<noteq> PStr ''feature'' \<and> verdict ds i \<noteq> PStr ''fix'']
              = length issues"
    by (rule three_way_length) simp
qed


lemma labelled_dict: "labelled ds (PDict kvs) = PDict (dict_set ''reason'' (reason_for ds (PDict kvs)) kvs)"
  by (simp add: labelled_def)

text \<open>
  C2, as amended. When the answer is decoded (entries and tickets carrying
  hashable ids), a ticket whose id no entry of the decision list carries is in
  \<open>excluded\<close> with the sentinel reason \<open>No reason given\<close>. A ticket whose entry
  (the last one carrying its id) has a decision that is neither \<open>feature\<close> nor
  \<open>fix\<close> is in \<open>excluded\<close> with the reason of that entry, whatever it is, and
  with the sentinel only when the entry has no reason.
\<close>

theorem default_decision:
  assumes "issues \<noteq> []" and "issues_text (PList issues) = Inr ()"
    and "inference w = Inr response # rest" and "response_text response = Inr reply"
    and "two_tier loads (CHR ''['') (CHR '']'') reply = Some decisions"
    and "py_iter decisions = Inr ds" and "list_all id_ok ds" and "list_all id_ok issues"
    and "PDict kvs \<in> set issues" and "map_of kvs ''id'' = Some k"
  shows "\<exists>r. fst (filter_customer_worthy loads (PList issues) w) = Inr r \<and>
     (\<not> list_ex (has_id k) ds \<longrightarrow>
        PDict (dict_set ''reason'' (PStr ''No reason given'') kvs) \<in> set (part_of r ''excluded'')) \<and>
     (find_by_id ds k = Some d \<and> field d ''decision'' (PStr ''exclude'') \<noteq> PStr ''feature'' \<and>
      field d ''decision'' (PStr ''exclude'') \<noteq> PStr ''fix'' \<longrightarrow>
        PDict (dict_set ''reason'' (field d ''reason'' (PStr ''No reason given'')) kvs)
          \<in> set (part_of r ''excluded''))"
proof -
  let ?ex = "map (labelled ds)
     [i\<leftarrow>issues. verdict ds i \<noteq> PStr ''feature'' \<and> verdict ds i \<noteq> PStr ''fix'']"
  let ?r = "PDict [(''features'', PList (map (labelled ds) [i\<leftarrow>issues. verdict ds i = PStr ''feature''])),
                 (''fixes'', PList (map (labelled ds) [i\<leftarrow>issues. verdict ds i = PStr ''fix''])),
                 (''excluded'', PList ?ex), (''decisions'', decisions)]"
  have run: "fst (filter_customer_worthy loads (PList issues) w) = Inr ?r"
    using assms(1-8) by (simp add: filter_customer_worthy_call classify_response_decoded)
  have part: "part_of ?r ''excluded'' = ?ex"
    by (simp add: part_of_def)
  have entry: "entry_for ds (PDict kvs) = find_by_id ds k"
    using assms(10) by (simp add: entry_for_def)
  have a: "PDict (dict_set ''reason'' (PStr ''No reason given'') kvs) \<in> set ?ex"
    if "\<not> list_ex (has_id k) ds"
  proof -
    from that have none: "find_by_id ds k = None" by (simp add: find_by_id_None)
    then have v: "verdict ds (PDict kvs) = PStr ''exclude''"
      and l: "labelled ds (PDict kvs) = PDict (dict_set ''reason'' (PStr ''No reason given'') kvs)"
      by (simp_all add: verdict_def labelled_dict reason_for_def entry)
    from v assms(9) have "PDict kvs \<in> set [i\<leftarrow>issues. verdict ds i \<noteq> PStr ''feature'' \<and> verdict ds i \<noteq> PStr ''fix'']"
      by simp
    then have "labelled ds (PDict kvs) \<in> labelled ds ` set [i\<leftarrow>issues. verdict ds i \<noteq> PStr ''feature'' \<and> verdict ds i \<noteq> PStr ''fix'']"
      by (rule imageI)
    then have "labelled ds (PDict kvs) \<in> set ?ex" by simp
    with l show ?thesis by simp
  qed
  have b: "PDict (dict_set ''reason'' (field d ''reason'' (PStr ''No reason given'')) kvs) \<in> set ?ex"
    if "find_by_id ds k = Some d" and "field d ''decision'' (PStr ''exclude'') \<noteq> PStr ''feature''"
      and "field d ''decision'' (PStr ''exclude'') \<noteq> PStr ''fix''"
  proof -
    from that have v: "verdict ds (PDict kvs) \<noteq> PStr ''feature'' \<and> verdict ds (PDict kvs) \<noteq> PStr ''fix''"
      and l: "labelled ds (PDict kvs) = PDict (dict_set ''reason'' (field d ''reason'' (PStr ''No reason given'')) kvs)"
      by (simp_all add: verdict_def labelled_dict reason_for_def entry)
    from v assms(9) have "PDict kvs \<in> set [i\<leftarrow>issues. verdict ds i \<noteq> PStr ''feature'' \<and> verdict ds i \<noteq> PStr ''fix'']"
      by simp
    then have "labelled ds (PDict kvs) \<in> labelled ds ` set [i\<leftarrow>issues. verdict ds i \<noteq> PStr ''feature'' \<and> verdict ds i \<noteq> PStr ''fix'']"
      by (rule imageI)
    then have "labelled ds (PDict kvs) \<in> set ?ex" by simp
    with l show ?thesis by simp
  qed
  show ?thesis
  proof (rule exI [of _ ?r], intro conjI impI)
    show "fst (filter_customer_worthy loads (PList issues) w) = Inr ?r"
      by (rule run)
  next
    assume "\<not> list_ex (has_id k) ds"
    then show "PDict (dict_set ''reason'' (PStr ''No reason given'') kvs) \<in> set (part_of ?r ''excluded'')"
      unfolding part by (rule a)
  next
    assume "find_by_id ds k = Some d \<and> field d ''decision'' (PStr ''exclude'') \<noteq> PStr ''feature'' \<and>
      field d ''decision'' (PStr ''exclude'') \<noteq> PStr ''fix''"
    then show "PDict (dict_set ''reason'' (field d ''reason'' (PStr ''No reason given'')) kvs)
          \<in> set (part_of ?r ''excluded'')"
      unfolding part using b by blast
  qed
qed

text \<open>
  C7. An empty ticket list makes no inference call (the environment is
  returned as it was), but the result is the empty list \<open>[]\<close> and not the
  structure with the keys \<open>features\<close>, \<open>fixes\<close>, \<open>excluded\<close> and \<open>decisions\<close>
  that the other paths return: reading a partition from it raises, in \<open>main\<close>'s
  listing and in the grouper alike.
\<close>

theorem empty_input_result:
  "filter_customer_worthy loads (PList []) w = (Inr (PList []), w) \<and>
   PList [] \<noteq> empty_partitions \<and>
   py_get (PList []) ''features'' (PList []) = Inl AttributeError \<and>
   print_stages (PList []) = Inl AttributeError \<and>
   fst (group_related_tickets loads (PList []) w) = Inl AttributeError"
  by (simp add: filter_customer_worthy_def empty_partitions_def print_stages_def
      group_related_tickets_def group_prompt_def)

section \<open>Properties of the two-tier decoding\<close>

lemma re_search_span_wrapped:
  assumes "l \<notin> set pre" and "r \<notin> set post"
  shows "re_search_span l r (pre @ l # body @ r # post) = Some (l # body @ [r])"
proof -
  have 1: "dropWhile (\<lambda>c. c \<noteq> l) (pre @ l # body @ r # post) = l # body @ r # post"
    using assms(1) by (auto simp: dropWhile_append3)
  have 2: "dropWhile (\<lambda>c. c \<noteq> r) (rev post @ r # rev body) = r # rev body"
    using assms(2) by (auto simp: dropWhile_append3)
  have 3: "rev (dropWhile (\<lambda>c. c \<noteq> r) (rev (body @ r # post))) = body @ [r]"
    using 2 by simp
  obtain a as where 4: "body @ [r] = a # as"
    by (cases "body @ [r]") auto
  show ?thesis
    unfolding re_search_span_def 1 by (simp add: 3 4 del: rev_append)
qed

lemma strip_wrapped:
  assumes "\<not> py_space l" and "\<not> py_space r"
  shows "strip (pre @ l # body @ r # post) =
     dropWhile py_space pre @ l # body @ r # rev (dropWhile py_space (rev post))"
proof -
  have 1: "dropWhile py_space (pre @ l # body @ r # post) = dropWhile py_space pre @ l # body @ r # post"
    using assms(1) by (induction pre) auto
  have 2: "dropWhile py_space (rev post @ r # rev body @ l # rev (dropWhile py_space pre)) =
     dropWhile py_space (rev post) @ r # rev body @ l # rev (dropWhile py_space pre)"
    using assms(2) by (induction "rev post" arbitrary: post) (auto simp: dropWhile_append)
  show ?thesis
    by (simp add: strip_def 1 2)
qed


lemma bracket_not_space: "\<not> py_space (CHR ''['')" "\<not> py_space (CHR '']'')"
  by (simp_all add: py_space_def)

lemma set_dropWhile_subset: "x \<notin> set xs \<Longrightarrow> x \<notin> set (dropWhile P xs)"
  using set_dropWhileD by fastforce

lemma two_tier_bare:
  "two_tier loads (CHR ''['') (CHR '']'') (CHR ''['' # body @ [CHR '']'']) = loads (CHR ''['' # body @ [CHR '']''])"
proof -
  have "re_search_span (CHR ''['') (CHR '']'') ([] @ CHR ''['' # body @ CHR '']'' # []) =
        Some (CHR ''['' # body @ [CHR '']''])"
    by (rule re_search_span_wrapped) simp_all
  then show ?thesis
    by (simp add: two_tier_def split: option.splits)
qed

text \<open>
  C8, as amended. Let an answer consist of a bracket-delimited array text
  between two pieces of prose, the prose before it containing no \<open>[\<close> and the
  prose after it no \<open>]\<close>, and let the answer as a whole not decode. Then the
  two-tier decoding yields what decoding the bare array yields, and the
  classifier treats the wrapped answer as it treats the bare array.
\<close>

theorem parse_fallback:
  assumes "CHR ''['' \<notin> set pre" and "CHR '']'' \<notin> set post"
    and "loads (strip (pre @ CHR ''['' # body @ CHR '']'' # post)) = None"
  shows "two_tier loads (CHR ''['') (CHR '']'') (strip (pre @ CHR ''['' # body @ CHR '']'' # post))
           = loads (CHR ''['' # body @ [CHR '']'']) \<and>
         classify_response loads issues [(''text'', pre @ CHR ''['' # body @ CHR '']'' # post)]
           = classify_response loads issues [(''text'', CHR ''['' # body @ [CHR '']''])]"
proof -
  let ?pre = "dropWhile py_space pre" and ?post = "rev (dropWhile py_space (rev post))"
  have s: "strip (pre @ CHR ''['' # body @ CHR '']'' # post) = ?pre @ CHR ''['' # body @ CHR '']'' # ?post"
    by (rule strip_wrapped) (rule bracket_not_space)+
  have pre: "CHR ''['' \<notin> set ?pre"
    using assms(1) by (rule set_dropWhile_subset)
  have "CHR '']'' \<notin> set (dropWhile py_space (rev post))"
    using assms(2) by (intro set_dropWhile_subset) simp
  then have post: "CHR '']'' \<notin> set ?post" by simp
  have m: "re_search_span (CHR ''['') (CHR '']'') (?pre @ CHR ''['' # body @ CHR '']'' # ?post) =
        Some (CHR ''['' # body @ [CHR '']''])"
    using pre post by (rule re_search_span_wrapped)
  have 1: "two_tier loads (CHR ''['') (CHR '']'') (strip (pre @ CHR ''['' # body @ CHR '']'' # post))
           = loads (CHR ''['' # body @ [CHR '']''])"
    using assms(3) m by (simp add: two_tier_def s)
  have b: "strip (CHR ''['' # body @ [CHR '']'']) = CHR ''['' # body @ [CHR '']'']"
    using strip_wrapped [of "CHR ''[''" "CHR '']''" "[]" body "[]"] bracket_not_space by simp
  have 2: "classify_response loads issues [(''text'', pre @ CHR ''['' # body @ CHR '']'' # post)]
           = classify_response loads issues [(''text'', CHR ''['' # body @ [CHR '']''])]"
    by (simp add: classify_response_def response_text_def b 1 two_tier_bare)
  from 1 2 show ?thesis by simp
qed

section \<open>Properties of the start boundary\<close>

text \<open>
  C3. In both programs the start boundary follows the three-tier precedence.
  An override that is set (a non-empty \<open>START_DATE\<close>, stripped of surrounding
  white space, or a non-empty \<open>since_date\<close>) is the boundary whatever the state
  file holds. With no override, a stored checkpoint with a true value is the
  boundary. With neither, the boundary is the date seven days before today.
\<close>

theorem checkpoint_precedence:
  "(START_DATE w = Some s \<and> s \<noteq> [] \<longrightarrow> main_since loads w = Inr (PStr (strip s))) \<and>
   (\<not> env_set (START_DATE w) \<and> load_last_run loads w = Inr v \<and> py_truthy v \<longrightarrow>
      main_since loads w = Inr v) \<and>
   (\<not> env_set (START_DATE w) \<and> load_last_run loads w = Inr v \<and> \<not> py_truthy v \<longrightarrow>
      main_since loads w = Inr (PStr (strftime_ymd (today w - 7)))) \<and>
   (since_date = Some s \<and> s \<noteq> [] \<longrightarrow> customer_since loads since_date w = Inr (PStr s)) \<and>
   (\<not> env_set since_date \<and> load_last_run loads w = Inr v \<and> py_truthy v \<longrightarrow>
      customer_since loads since_date w = Inr v) \<and>
   (\<not> env_set since_date \<and> load_last_run loads w = Inr v \<and> \<not> py_truthy v \<longrightarrow>
      customer_since loads since_date w = Inr (PStr (strftime_ymd (today w - 7))))"
  by (simp add: main_since_def customer_since_def env_set_def)

lemma load_last_run_stored:
  "state_file w = Some content \<Longrightarrow> loads content = Some (PDict kvs) \<Longrightarrow>
   load_last_run loads w = Inr (case map_of kvs ''last_run'' of Some v \<Rightarrow> v | None \<Rightarrow> PNone)"
  by (simp add: load_last_run_def)

lemma load_last_run_absent: "state_file w = None \<Longrightarrow> load_last_run loads w = Inr PNone"
  by (simp add: load_last_run_def)


section \<open>Properties of the grouper\<close>

lemma plain_key_hashable: "plain_key k \<Longrightarrow> py_hashable k"
  by (cases k) simp_all

lemma plain_keys_hashable: "list_all plain_key ids \<Longrightarrow> list_all py_hashable ids"
  by (simp add: list_all_iff plain_key_hashable)

lemma plain_ids_ok: "list_all plain_id ts \<Longrightarrow> list_all id_ok ts"
  by (auto simp: list_all_iff plain_id_def id_ok_def plain_key_hashable split: sum.splits)

lemma resolve_resolved:
  assumes "by_id all_tickets [] = Inr m" and "py_hashable tid"
  shows "\<exists>t. resolve m tid = Inr t \<and> resolved all_tickets tid t"
proof (cases "find_by_id all_tickets tid")
  case None
  then have "\<not> list_ex (has_id tid) all_tickets" by (simp add: find_by_id_None)
  moreover have "resolve m tid = Inr (PDict [(''id'', tid), (''title'', PStr ''Unknown'')])"
    using assms None by (simp add: resolve_def placeholder_def idmap_get_def by_id_find)
  ultimately show ?thesis by (simp add: resolved_def)
next
  case (Some t)
  then have t: "t \<in> set all_tickets" "has_id tid t" using find_by_id_mem by blast+
  then have "list_ex (has_id tid) all_tickets" by (auto simp: list_ex_iff)
  moreover have "resolve m tid = Inr t"
    using assms Some by (simp add: resolve_def idmap_get_def by_id_find)
  ultimately show ?thesis using t by (simp add: resolved_def)
qed

lemma resolve_all:
  assumes "by_id all_tickets [] = Inr m"
  shows "list_all py_hashable ids \<Longrightarrow>
     \<exists>ts. map_err (resolve m) ids = Inr ts \<and> list_all2 (resolved all_tickets) ids ts"
proof (induction ids)
  case Nil
  then show ?case by simp
next
  case (Cons tid ids)
  then obtain ts where ts: "map_err (resolve m) ids = Inr ts" "list_all2 (resolved all_tickets) ids ts"
    by auto
  from Cons.prems obtain t where t: "resolve m tid = Inr t" "resolved all_tickets tid t"
    using resolve_resolved [OF assms] by auto
  show ?case using t ts by simp
qed

lemma id_list_iter:
  "id_list v \<Longrightarrow> \<exists>ids. v = PList ids \<and> py_iter v = Inr ids \<and> list_all py_hashable ids"
  by (cases v) (simp_all add: id_list_def plain_keys_hashable)

lemma enrich_group_enriched:
  assumes "by_id all_tickets [] = Inr m" and "group_shape g"
  shows "\<exists>eg. enrich_group m g = Inr eg \<and> enriched all_tickets g eg"
proof -
  from assms(2) obtain kvs name where g: "g = PDict kvs" and name: "map_of kvs ''name'' = Some name"
    and tk: "case map_of kvs ''tickets'' of None \<Rightarrow> True | Some v \<Rightarrow> id_list v"
    by (cases g) (auto simp: group_shape_def)
  define tids where "tids = (case map_of kvs ''tickets'' of Some v \<Rightarrow> v | None \<Rightarrow> PList [])"
  have "id_list tids"
    using tk by (auto simp: tids_def id_list_def split: option.splits)
  then obtain ids where ids: "tids = PList ids" "py_iter tids = Inr ids" "list_all py_hashable ids"
    using id_list_iter by blast
  then obtain ts where ts: "map_err (resolve m) ids = Inr ts" "list_all2 (resolved all_tickets) ids ts"
    using resolve_all [OF assms(1)] by blast
  have p: "part_of g ''tickets'' = ids"
    using ids(1) by (simp add: part_of_def g tids_def split: option.splits)
  let ?eg = "PDict [(''name'', name), (''summary'', field g ''summary'' (PStr [])), (''tickets'', PList ts)]"
  have "enrich_group m g = Inr ?eg"
    using name ids ts by (simp add: enrich_group_def g field_def tids_def [symmetric])
  moreover have "part_of ?eg ''tickets'' = ts"
    by (simp add: part_of_def)
  moreover have "py_item ?eg ''name'' = py_item g ''name''"
    using name by (simp add: g)
  moreover have "py_item ?eg ''summary'' = Inr (field g ''summary'' (PStr []))"
    by simp
  ultimately show ?thesis
    using ts(2) unfolding enriched_def p by (intro exI [of _ ?eg]) (simp only: simp_thms)
qed

lemma enrich_groups_all:
  assumes "by_id all_tickets [] = Inr m"
  shows "list_all group_shape gs \<Longrightarrow>
     \<exists>egs. map_err (enrich_group m) gs = Inr egs \<and> list_all2 (enriched all_tickets) gs egs"
proof (induction gs)
  case Nil
  then show ?case by simp
next
  case (Cons g gs)
  then obtain egs where egs: "map_err (enrich_group m) gs = Inr egs" "list_all2 (enriched all_tickets) gs egs"
    by auto
  from Cons.prems obtain eg where eg: "enrich_group m g = Inr eg" "enriched all_tickets g eg"
    using enrich_group_enriched [OF assms] by auto
  show ?case using eg egs by simp
qed

lemma group_response_decoded:
  "response_text response = Inr reply \<Longrightarrow> two_tier loads (CHR ''{'') (CHR ''}'') reply = Some result \<Longrightarrow>
   group_response loads fix_list all_tickets response = enrich all_tickets result"
  by (simp add: group_response_def)

text \<open>
  C6, as amended. Let the decoded result have the shape the prompt asks for:
  an object, each group an object with a name, each member list and
  \<open>ungrouped_fixes\<close> a list of ids that are strings, integers, booleans or
  \<open>null\<close>; and let every candidate ticket carry such an id. Then the
  enrichment returns, and every id in a member list of a group and every id in
  \<open>ungrouped_fixes\<close> is resolved: to a candidate ticket carrying that id when
  there is one, otherwise to the object \<open>{"id": id, "title": "Unknown"}\<close>.
  This is what \<open>group_related_tickets\<close> returns for an answer decoded to that
  result.
\<close>

theorem grouping_closure:
  assumes "list_all plain_id all_tickets" and "grouping_shape result"
  shows "\<exists>r. enrich all_tickets result = Inr r \<and>
     list_all2 (enriched all_tickets) (part_of result ''groups'') (part_of r ''groups'') \<and>
     list_all2 (resolved all_tickets) (part_of result ''ungrouped_fixes'') (part_of r ''ungrouped_fixes'') \<and>
     (response_text response = Inr reply \<and> two_tier loads (CHR ''{'') (CHR ''}'') reply = Some result \<longrightarrow>
        group_response loads fix_list all_tickets response = Inr r)"
proof -
  from assms(1) obtain m where m: "by_id all_tickets [] = Inr m"
    using by_id_total plain_ids_ok by blast
  from assms(2) obtain kvs where res: "result = PDict kvs"
    and gshape: "case map_of kvs ''groups'' of None \<Rightarrow> True | Some (PList gs) \<Rightarrow> list_all group_shape gs | Some _ \<Rightarrow> False"
    and ushape: "case map_of kvs ''ungrouped_fixes'' of None \<Rightarrow> True | Some v \<Rightarrow> id_list v"
    by (cases result) (auto simp: grouping_shape_def)
  define gv where "gv = (case map_of kvs ''groups'' of Some v \<Rightarrow> v | None \<Rightarrow> PList [])"
  define uv where "uv = (case map_of kvs ''ungrouped_fixes'' of Some v \<Rightarrow> v | None \<Rightarrow> PList [])"
  from gshape obtain gs where gs: "gv = PList gs" "list_all group_shape gs"
    by (auto simp: gv_def split: option.splits py.splits)
  have "id_list uv"
    using ushape by (auto simp: uv_def id_list_def split: option.splits)
  then obtain ids where ids: "uv = PList ids" "list_all py_hashable ids"
    using id_list_iter by blast
  obtain egs where egs: "map_err (enrich_group m) gs = Inr egs" "list_all2 (enriched all_tickets) gs egs"
    using enrich_groups_all [OF m gs(2)] by blast
  obtain ts where ts: "map_err (resolve m) ids = Inr ts" "list_all2 (resolved all_tickets) ids ts"
    using resolve_all [OF m ids(2)] by blast
  let ?r = "PDict [(''groups'', PList egs), (''ungrouped_fixes'', PList ts)]"
  have run: "enrich all_tickets result = Inr ?r"
    using m gs(1) ids(1) egs(1) ts(1)
    by (simp add: enrich_def res gv_def [symmetric] uv_def [symmetric])
  have pg: "part_of result ''groups'' = gs"
    using gs(1) by (simp add: part_of_def res gv_def split: option.splits)
  have pu: "part_of result ''ungrouped_fixes'' = ids"
    using ids(1) by (simp add: part_of_def res uv_def split: option.splits)
  have rg: "part_of ?r ''groups'' = egs" and ru: "part_of ?r ''ungrouped_fixes'' = ts"
    by (simp_all add: part_of_def)
  show ?thesis
    using run egs(2) ts(2) unfolding pg [symmetric] pu [symmetric]
    by (intro exI [of _ ?r]) (simp add: rg ru group_response_decoded)
qed

lemma group_response_fallback:
  assumes "response_text response = Inr reply" and "two_tier loads (CHR ''{'') (CHR ''}'') reply = None"
    and "map_err (\<lambda>t. py_item t ''id'') fixes = Inr ids"
  shows "group_response loads (PList fixes) all_tickets response =
     Inr (PDict [(''groups'', PList []), (''ungrouped_fixes'', PList ids)])"
  using assms by (simp add: group_response_def)


section \<open>Runs on the sample tickets\<close>

theorem partition_completeness_witness:
  "fst (filter_customer_worthy json_loads (PList [ticket_typo, ticket_schema]) (answering [decisions_b])) =
     Inr (PDict [(''features'', PList []),
                 (''fixes'', PList [PDict [(''id'', PStr ''B''), (''title'', PStr ''Fix typo in error toast''),
                                           (''reason'', PStr ''Copy fix'')]]),
                 (''excluded'', PList [PDict [(''id'', PStr ''C''), (''title'', PStr ''Refactor internal auth schema''),
                                              (''reason'', PStr ''No reason given'')]]),
                 (''decisions'', PList [PDict [(''id'', PStr ''B''), (''decision'', PStr ''fix''),
                                               (''reason'', PStr ''Copy fix'')]])]) \<and>
   fst (filter_customer_worthy json_loads (PList [ticket_typo, ticket_schema]) (answering [''Sorry, no list.'']))
     = Inr empty_partitions \<and>
   length (part_of (projr (fst (filter_customer_worthy json_loads (PList [ticket_typo, ticket_schema])
                                  (answering [decisions_b])))) ''features'') +
   length (part_of (projr (fst (filter_customer_worthy json_loads (PList [ticket_typo, ticket_schema])
                                  (answering [decisions_b])))) ''fixes'') +
   length (part_of (projr (fst (filter_customer_worthy json_loads (PList [ticket_typo, ticket_schema])
                                  (answering [decisions_b])))) ''excluded'') = 2"
proof -
  let ?is = "[ticket_typo, ticket_schema]"
  let ?d = "PDict [(''id'', PStr ''B''), (''decision'', PStr ''fix''), (''reason'', PStr ''Copy fix'')]"
  have 1: "?is \<noteq> []" by simp
  have 2: "issues_text (PList ?is) = Inr ()" by code_simp
  have 3: "inference (answering [decisions_b]) = Inr [(''text'', decisions_b)] # []" by code_simp
  have 4: "response_text [(''text'', decisions_b)] = Inr decisions_b" by code_simp
  have 5: "two_tier json_loads (CHR ''['') (CHR '']'') decisions_b = Some (PList [?d])" by code_simp
  have 6: "py_iter (PList [?d]) = Inr [?d]" by simp
  have 7: "list_all id_ok [?d]" by code_simp
  have 8: "list_all id_ok ?is" by code_simp
  have a: "fst (filter_customer_worthy json_loads (PList ?is) (answering [decisions_b])) =
     Inr (PDict [(''features'', PList (map (labelled [?d]) [i\<leftarrow>?is. verdict [?d] i = PStr ''feature''])),
                 (''fixes'', PList (map (labelled [?d]) [i\<leftarrow>?is. verdict [?d] i = PStr ''fix''])),
                 (''excluded'', PList (map (labelled [?d])
                    [i\<leftarrow>?is. verdict [?d] i \<noteq> PStr ''feature'' \<and> verdict [?d] i \<noteq> PStr ''fix''])),
                 (''decisions'', PList [?d])])"
    using partition_completeness [OF 1, where loads = json_loads and w = "answering [decisions_b]"
        and response = "[(''text'', decisions_b)]" and rest = "[]" and reply = decisions_b
        and decisions = "PList [?d]" and ds = "[?d]"] 2 3 4 5 6 7 8
    by blast
  have e: "map (labelled [?d]) [i\<leftarrow>?is. verdict [?d] i = PStr ''feature''] = []"
    "map (labelled [?d]) [i\<leftarrow>?is. verdict [?d] i = PStr ''fix''] =
       [PDict [(''id'', PStr ''B''), (''title'', PStr ''Fix typo in error toast''), (''reason'', PStr ''Copy fix'')]]"
    "map (labelled [?d]) [i\<leftarrow>?is. verdict [?d] i \<noteq> PStr ''feature'' \<and> verdict [?d] i \<noteq> PStr ''fix''] =
       [PDict [(''id'', PStr ''C''), (''title'', PStr ''Refactor internal auth schema''),
               (''reason'', PStr ''No reason given'')]]"
    by code_simp+
  have 9: "inference (answering [''Sorry, no list.'']) = Inr [(''text'', ''Sorry, no list.'')] # []" by code_simp
  have 10: "response_text [(''text'', ''Sorry, no list.'')] = Inr ''Sorry, no list.''" by code_simp
  have 11: "two_tier json_loads (CHR ''['') (CHR '']'') ''Sorry, no list.'' = None" by code_simp
  have b: "fst (filter_customer_worthy json_loads (PList ?is) (answering [''Sorry, no list.''])) = Inr empty_partitions"
    using partition_completeness [OF 1, where loads = json_loads and w = "answering [''Sorry, no list.'']"
        and response = "[(''text'', ''Sorry, no list.'')]" and rest = "[]" and reply = "''Sorry, no list.''"] 2 9 10 11
    by blast
  let ?r = "PDict [(''features'', PList []),
                 (''fixes'', PList [PDict [(''id'', PStr ''B''), (''title'', PStr ''Fix typo in error toast''),
                                           (''reason'', PStr ''Copy fix'')]]),
                 (''excluded'', PList [PDict [(''id'', PStr ''C''), (''title'', PStr ''Refactor internal auth schema''),
                                              (''reason'', PStr ''No reason given'')]]),
                 (''decisions'', PList [?d])]"
  have a': "fst (filter_customer_worthy json_loads (PList ?is) (answering [decisions_b])) = Inr ?r"
    using a by (simp only: e)
  have ne: "?r \<noteq> empty_partitions" by (simp add: empty_partitions_def)
  have c: "length (part_of ?r ''features'') + length (part_of ?r ''fixes'') + length (part_of ?r ''excluded'')
     = length ?is"
    using partition_completeness [OF 1, where loads = json_loads and w = "answering [decisions_b]"
        and r = ?r] a' ne by blast
  from a' b c show ?thesis by simp
qed

text \<open>
  C1 as stated fails on a total parse failure: one ticket goes in, the three
  partitions returned are empty.
\<close>

theorem empty_partitions_on_parse_failure:
  "fst (filter_customer_worthy json_loads (PList [ticket_typo]) (answering [''Sorry, no list.''])) =
     Inr empty_partitions \<and>
   length (part_of empty_partitions ''features'') + length (part_of empty_partitions ''fixes'')
     + length (part_of empty_partitions ''excluded'') \<noteq> length [ticket_typo]"
  by code_simp

theorem default_decision_witness:
  "PDict [(''id'', PStr ''C''), (''title'', PStr ''Refactor internal auth schema''), (''reason'', PStr ''No reason given'')]
     \<in> set (part_of (projr (fst (filter_customer_worthy json_loads (PList [ticket_typo, ticket_schema])
                                   (answering [decisions_b])))) ''excluded'') \<and>
   PDict [(''id'', PStr ''C''), (''title'', PStr ''Refactor internal auth schema''),
          (''reason'', PStr ''Internal schema work'')]
     \<in> set (part_of (projr (fst (filter_customer_worthy json_loads (PList [ticket_schema])
                                   (answering [decisions_c])))) ''excluded'')"
proof -
  let ?is = "[ticket_typo, ticket_schema]"
  let ?d = "PDict [(''id'', PStr ''B''), (''decision'', PStr ''fix''), (''reason'', PStr ''Copy fix'')]"
  let ?kvs = "[(''id'', PStr ''C''), (''title'', PStr ''Refactor internal auth schema'')]"
  have 1: "?is \<noteq> []" by simp
  have 2: "issues_text (PList ?is) = Inr ()" by code_simp
  have 3: "inference (answering [decisions_b]) = Inr [(''text'', decisions_b)] # []" by code_simp
  have 4: "response_text [(''text'', decisions_b)] = Inr decisions_b" by code_simp
  have 5: "two_tier json_loads (CHR ''['') (CHR '']'') decisions_b = Some (PList [?d])" by code_simp
  have 6: "py_iter (PList [?d]) = Inr [?d]" by simp
  have 7: "list_all id_ok [?d]" by code_simp
  have 8: "list_all id_ok ?is" by code_simp
  have 9: "PDict ?kvs \<in> set ?is" by (simp add: ticket_schema_def)
  have 10: "map_of ?kvs ''id'' = Some (PStr ''C'')" by simp
  have 11: "\<not> list_ex (has_id (PStr ''C'')) [?d]" by code_simp
  have 12: "dict_set ''reason'' (PStr ''No reason given'') ?kvs =
     [(''id'', PStr ''C''), (''title'', PStr ''Refactor internal auth schema''), (''reason'', PStr ''No reason given'')]"
    by simp
  from default_decision [OF 1 2 3 4 5 6 7 8 9 10, of PNone] 11
  obtain r where "fst (filter_customer_worthy json_loads (PList ?is) (answering [decisions_b])) = Inr r"
    and "PDict (dict_set ''reason'' (PStr ''No reason given'') ?kvs) \<in> set (part_of r ''excluded'')"
    by blast
  then have first: "PDict [(''id'', PStr ''C''), (''title'', PStr ''Refactor internal auth schema''),
        (''reason'', PStr ''No reason given'')]
     \<in> set (part_of (projr (fst (filter_customer_worthy json_loads (PList ?is)
                                   (answering [decisions_b])))) ''excluded'')"
    by (simp add: 12)
  let ?e = "PDict [(''id'', PStr ''C''), (''decision'', PStr ''exclude''), (''reason'', PStr ''Internal schema work'')]"
  have m1: "[ticket_schema] \<noteq> []" by simp
  have m2: "issues_text (PList [ticket_schema]) = Inr ()" by code_simp
  have m3: "inference (answering [decisions_c]) = Inr [(''text'', decisions_c)] # []" by code_simp
  have m4: "response_text [(''text'', decisions_c)] = Inr decisions_c" by code_simp
  have m5: "two_tier json_loads (CHR ''['') (CHR '']'') decisions_c = Some (PList [?e])" by code_simp
  have m6: "py_iter (PList [?e]) = Inr [?e]" by simp
  have m7: "list_all id_ok [?e]" by code_simp
  have m8: "list_all id_ok [ticket_schema]" by code_simp
  have m9: "PDict ?kvs \<in> set [ticket_schema]" by (simp add: ticket_schema_def)
  have m11: "find_by_id [?e] (PStr ''C'') = Some ?e \<and>
     field ?e ''decision'' (PStr ''exclude'') \<noteq> PStr ''feature'' \<and>
     field ?e ''decision'' (PStr ''exclude'') \<noteq> PStr ''fix''"
    by code_simp
  from default_decision [OF m1 m2 m3 m4 m5 m6 m7 m8 m9 10, of ?e] m11
  obtain r' where "fst (filter_customer_worthy json_loads (PList [ticket_schema]) (answering [decisions_c])) = Inr r'"
    and "PDict (dict_set ''reason'' (field ?e ''reason'' (PStr ''No reason given'')) ?kvs)
           \<in> set (part_of r' ''excluded'')"
    by blast
  then have second: "PDict [(''id'', PStr ''C''), (''title'', PStr ''Refactor internal auth schema''),
          (''reason'', PStr ''Internal schema work'')]
     \<in> set (part_of (projr (fst (filter_customer_worthy json_loads (PList [ticket_schema])
                                   (answering [decisions_c])))) ''excluded'')"
    by (simp add: field_def)
  from first second show ?thesis by simp
qed

text \<open>
  C2 as stated fails for a ticket whose entry says \<open>exclude\<close> with an empty
  reason: the ticket is excluded with that empty reason, not with the sentinel.
\<close>

theorem empty_reason_kept:
  \<open>fst (filter_customer_worthy json_loads (PList [ticket_typo])
          (answering [''[{"id": "B", "decision": "exclude", "reason": ""}]''])) =
   Inr (PDict [(''features'', PList []), (''fixes'', PList []),
     (''excluded'', PList [PDict [(''id'', PStr ''B''), (''title'', PStr ''Fix typo in error toast''), (''reason'', PStr [])]]),
     (''decisions'', PList [PDict [(''id'', PStr ''B''), (''decision'', PStr ''exclude''), (''reason'', PStr [])]])])\<close>
  by code_simp

theorem parse_fallback_witness:
  \<open>two_tier json_loads (CHR ''['') (CHR '']'') (strip ''Here you go: [{"id": "B", "decision": "fix"}] Done.'')
     = Some (PList [PDict [(''id'', PStr ''B''), (''decision'', PStr ''fix'')]]) \<and>
   classify_response json_loads (PList [ticket_typo]) [(''text'', ''Here you go: [{"id": "B", "decision": "fix"}] Done.'')]
     = classify_response json_loads (PList [ticket_typo]) [(''text'', ''[{"id": "B", "decision": "fix"}]'')]\<close>
proof -
  have 1: "CHR ''['' \<notin> set ''Here you go: ''" by simp
  have 2: "CHR '']'' \<notin> set '' Done.''" by simp
  have 3: \<open>json_loads (strip (''Here you go: '' @ CHR ''['' # ''{"id": "B", "decision": "fix"}'' @ CHR '']'' # '' Done.'')) = None\<close>
    by code_simp
  have 4: \<open>json_loads (CHR ''['' # ''{"id": "B", "decision": "fix"}'' @ [CHR '']'']) =
     Some (PList [PDict [(''id'', PStr ''B''), (''decision'', PStr ''fix'')]])\<close>
    by code_simp
  from parse_fallback [where pre = "''Here you go: ''" and post = "'' Done.''" and loads = json_loads
      and issues = "PList [ticket_typo]" and body = \<open>''{"id": "B", "decision": "fix"}''\<close>, OF 1 2 3] 4
  show ?thesis by simp
qed

text \<open>
  C8 as stated fails when the prose before the array contains a bracket: the
  match then starts at that bracket, the substring does not decode, and the
  result is the total failure although the array alone decodes.
\<close>

theorem bracket_in_prose:
  \<open>two_tier json_loads (CHR ''['') (CHR '']'') (strip ''Result [final]: [{"id": "B", "decision": "fix"}]'') = None \<and>
   json_loads ''[{"id": "B", "decision": "fix"}]'' = Some (PList [PDict [(''id'', PStr ''B''), (''decision'', PStr ''fix'')]])\<close>
  by code_simp

theorem checkpoint_precedence_witness:
  \<open>main_since json_loads (world0\<lparr>START_DATE := Some '' 2026-09-01 '', state_file := Some ''{"last_run": "2026-10-30"}''\<rparr>)
     = Inr (PStr ''2026-09-01'') \<and>
   main_since json_loads (world0\<lparr>state_file := Some ''{"last_run": "2026-10-30"}''\<rparr>) = Inr (PStr ''2026-10-30'') \<and>
   main_since json_loads world0 = Inr (PStr ''2026-10-28'') \<and>
   customer_since json_loads (Some ''2026-09-01'') (world0\<lparr>state_file := Some ''{"last_run": "2026-10-30"}''\<rparr>)
     = Inr (PStr ''2026-09-01'') \<and>
   customer_since json_loads None (world0\<lparr>state_file := Some ''{"last_run": "2026-10-30"}''\<rparr>)
     = Inr (PStr ''2026-10-30'') \<and>
   customer_since json_loads None world0 = Inr (PStr ''2026-10-28'')\<close>
proof -
  let ?w1 = \<open>world0\<lparr>START_DATE := Some '' 2026-09-01 '', state_file := Some ''{"last_run": "2026-10-30"}''\<rparr>\<close>
  let ?w2 = \<open>world0\<lparr>state_file := Some ''{"last_run": "2026-10-30"}''\<rparr>\<close>
  have a: "START_DATE ?w1 = Some '' 2026-09-01 '' \<and> '' 2026-09-01 '' \<noteq> []" by code_simp
  have b: "\<not> env_set (START_DATE ?w2) \<and> load_last_run json_loads ?w2 = Inr (PStr ''2026-10-30'') \<and> py_truthy (PStr ''2026-10-30'')"
    by code_simp
  have c: "\<not> env_set (START_DATE world0) \<and> load_last_run json_loads world0 = Inr PNone \<and> \<not> py_truthy PNone"
    by code_simp
  have d: "Some ''2026-09-01'' = Some ''2026-09-01'' \<and> ''2026-09-01'' \<noteq> []" by simp
  have e: "\<not> env_set None" by code_simp
  have s: "strip '' 2026-09-01 '' = ''2026-09-01''" "strftime_ymd (today world0 - 7) = ''2026-10-28''"
    by code_simp+
  from checkpoint_precedence [where w = "?w1" and s = "'' 2026-09-01 ''" and loads = json_loads] a d
  have 1: "main_since json_loads ?w1 = Inr (PStr (strip '' 2026-09-01 ''))"
    by blast
  from checkpoint_precedence [where w = "?w2" and loads = json_loads and v = "PStr ''2026-10-30''" and since_date = None] b e
  have 2: "main_since json_loads ?w2 = Inr (PStr ''2026-10-30'')"
    and 5: "customer_since json_loads None ?w2 = Inr (PStr ''2026-10-30'')"
    by blast+
  from checkpoint_precedence [where w = world0 and loads = json_loads and v = PNone and since_date = None] c e
  have 3: "main_since json_loads world0 = Inr (PStr (strftime_ymd (today world0 - 7)))"
    and 6: "customer_since json_loads None world0 = Inr (PStr (strftime_ymd (today world0 - 7)))"
    by blast+
  have c4: "customer_since json_loads (Some ''2026-09-01'') ?w2 = Inr (PStr ''2026-09-01'')"
    using checkpoint_precedence [where w = "?w2" and loads = json_loads and since_date = "Some ''2026-09-01''" and s = "''2026-09-01''"] d by blast
  from 1 2 3 c4 5 6 show ?thesis by (simp only: s)
qed


theorem grouping_closure_witness:
  "enrich [ticket_typo, ticket_schema]
     (PDict [(''groups'', PList [PDict [(''name'', PStr ''Data export''),
                                        (''tickets'', PList [PStr ''A'', PStr ''C'', PStr ''Z'']),
                                        (''summary'', PStr ''Export your data'')]]),
             (''ungrouped_fixes'', PList [PStr ''B''])]) =
   Inr (PDict [(''groups'', PList [PDict [(''name'', PStr ''Data export''),
                                          (''summary'', PStr ''Export your data''),
                                          (''tickets'', PList [PDict [(''id'', PStr ''A''), (''title'', PStr ''Unknown'')], ticket_schema,
                                                               PDict [(''id'', PStr ''Z''), (''title'', PStr ''Unknown'')]])]]),
               (''ungrouped_fixes'', PList [ticket_typo])]) \<and>
   list_all2 (resolved [ticket_typo, ticket_schema]) [PStr ''B''] [ticket_typo] \<and>
   list_all2 (enriched [ticket_typo, ticket_schema])
     [PDict [(''name'', PStr ''Data export''),
             (''tickets'', PList [PStr ''A'', PStr ''C'', PStr ''Z'']),
             (''summary'', PStr ''Export your data'')]]
     [PDict [(''name'', PStr ''Data export''),
             (''summary'', PStr ''Export your data''),
             (''tickets'', PList [PDict [(''id'', PStr ''A''), (''title'', PStr ''Unknown'')], ticket_schema,
                                  PDict [(''id'', PStr ''Z''), (''title'', PStr ''Unknown'')]])]] \<and>
   group_response json_loads (PList [ticket_typo]) [ticket_typo, ticket_schema] [(''text'', grouping_abc)] =
   Inr (PDict [(''groups'', PList [PDict [(''name'', PStr ''Data export''),
                                          (''summary'', PStr ''Export your data''),
                                          (''tickets'', PList [PDict [(''id'', PStr ''A''), (''title'', PStr ''Unknown'')], ticket_schema,
                                                               PDict [(''id'', PStr ''Z''), (''title'', PStr ''Unknown'')]])]]),
               (''ungrouped_fixes'', PList [ticket_typo])])"
proof -
  let ?all = "[ticket_typo, ticket_schema]"
  let ?res = "PDict [(''groups'', PList [PDict [(''name'', PStr ''Data export''),
                                        (''tickets'', PList [PStr ''A'', PStr ''C'', PStr ''Z'']),
                                        (''summary'', PStr ''Export your data'')]]),
             (''ungrouped_fixes'', PList [PStr ''B''])]"
  let ?out = "PDict [(''groups'', PList [PDict [(''name'', PStr ''Data export''),
                                          (''summary'', PStr ''Export your data''),
                                          (''tickets'', PList [PDict [(''id'', PStr ''A''), (''title'', PStr ''Unknown'')], ticket_schema,
                                                               PDict [(''id'', PStr ''Z''), (''title'', PStr ''Unknown'')]])]]),
               (''ungrouped_fixes'', PList [ticket_typo])]"
  have 1: "list_all plain_id ?all" by code_simp
  have 2: "grouping_shape ?res" by code_simp
  have 3: "response_text [(''text'', grouping_abc)] = Inr grouping_abc" by code_simp
  have 4: "two_tier json_loads (CHR ''{'') (CHR ''}'') grouping_abc = Some ?res" by code_simp
  have 5: "enrich ?all ?res = Inr ?out" by code_simp
  have 6: "part_of ?res ''ungrouped_fixes'' = [PStr ''B'']" "part_of ?out ''ungrouped_fixes'' = [ticket_typo]"
    by code_simp+
  have 7: "part_of ?res ''groups'' =
     [PDict [(''name'', PStr ''Data export''),
             (''tickets'', PList [PStr ''A'', PStr ''C'', PStr ''Z'']),
             (''summary'', PStr ''Export your data'')]]"
    "part_of ?out ''groups'' =
     [PDict [(''name'', PStr ''Data export''),
             (''summary'', PStr ''Export your data''),
             (''tickets'', PList [PDict [(''id'', PStr ''A''), (''title'', PStr ''Unknown'')], ticket_schema,
                                  PDict [(''id'', PStr ''Z''), (''title'', PStr ''Unknown'')]])]]"
    by code_simp+
  from grouping_closure [OF 1 2, where response = "[(''text'', grouping_abc)]" and reply = grouping_abc
      and loads = json_loads and fix_list = "PList [ticket_typo]"] 3 4
  obtain r where r: "enrich ?all ?res = Inr r"
    "list_all2 (resolved ?all) (part_of ?res ''ungrouped_fixes'') (part_of r ''ungrouped_fixes'')"
    "list_all2 (enriched ?all) (part_of ?res ''groups'') (part_of r ''groups'')"
    "group_response json_loads (PList [ticket_typo]) ?all [(''text'', grouping_abc)] = Inr r"
    by blast
  from r(1) 5 have "r = ?out" by simp
  with r 6 7 show ?thesis by simp
qed

text \<open>
  C6 as stated fails: not every decoded result can be resolved. An answer
  whose \<open>ungrouped_fixes\<close> holds a list where an id is expected decodes, and the
  lookup of that id raises \<open>TypeError\<close> (a list is not hashable). An answer with
  a group that has no \<open>name\<close> decodes, and \<open>group["name"]\<close> raises \<open>KeyError\<close>
  before any of its ids is resolved. An answer that is a list decodes, and
  \<open>result.get\<close> raises \<open>AttributeError\<close>.
\<close>

theorem malformed_grouping_raises:
  "two_tier json_loads (CHR ''{'') (CHR ''}'') grouping_nested_id =
     Some (PDict [(''groups'', PList []), (''ungrouped_fixes'', PList [PList [PStr ''B'']])]) \<and>
   fst (group_related_tickets json_loads fixes_only (answering [grouping_nested_id])) = Inl TypeError \<and>
   two_tier json_loads (CHR ''{'') (CHR ''}'') grouping_unnamed =
     Some (PDict [(''groups'', PList [PDict [(''tickets'', PList [PStr ''B'', PStr ''Z''])]]),
                  (''ungrouped_fixes'', PList [])]) \<and>
   fst (group_related_tickets json_loads fixes_only (answering [grouping_unnamed])) = Inl KeyError \<and>
   two_tier json_loads (CHR ''{'') (CHR ''}'') grouping_list =
     Some (PList [PDict [(''name'', PStr ''Fixes''), (''tickets'', PList [PStr ''B''])]]) \<and>
   fst (group_related_tickets json_loads fixes_only (answering [grouping_list])) = Inl AttributeError"
  by code_simp

text \<open>
  C5. With one fix and an answer that neither tier decodes, the grouper
  returns no group and, under \<open>ungrouped_fixes\<close>, the id of the fix: the string
  \<open>B\<close> and not the ticket, where the path of a decoded answer puts the ticket.
\<close>

theorem fallback_returns_ids:
  "fst (group_related_tickets json_loads
          (PDict [(''features'', PList []), (''fixes'', PList [ticket_typo]), (''excluded'', PList [])])
          (answering [''I cannot group these.''])) =
     Inr (PDict [(''groups'', PList []), (''ungrouped_fixes'', PList [PStr ''B''])]) \<and>
   PStr ''B'' \<noteq> ticket_typo"
  by code_simp

section \<open>Properties of the pipeline\<close>

text \<open>
  C4. On the same answer the pipeline raises. Grouping followed by drafting,
  as \<open>generate_generic_release_notes\<close> runs them, ends in the \<open>TypeError\<close> of
  \<open>t['title']\<close> on the string that the fallback returned; \<open>main\<close> ends before
  the draft, in the \<open>AttributeError\<close> of \<open>ticket.get\<close> on that string, with
  the checkpoint not written.
\<close>

theorem fallback_draft_raises:
  "fst (generate_generic_release_notes json_loads (PList []) (PList [ticket_typo])
          (answering [''I cannot group these.'', ''notes''])) = Inl TypeError \<and>
   fst (main json_loads
          ((answering [decisions_b, ''I cannot group these.'', ''notes''])
             \<lparr>tracker := (\<lambda>since. Inr (PList [ticket_typo]))\<rparr>)) = Inl AttributeError \<and>
   state_file (snd (main json_loads
          ((answering [decisions_b, ''I cannot group these.'', ''notes''])
             \<lparr>tracker := (\<lambda>since. Inr (PList [ticket_typo]))\<rparr>))) = None"
  by code_simp


section \<open>Properties of the run\<close>

lemma map_of_dict_set: "map_of (dict_set k v m) k' = (if k' = k then Some v else map_of m k')"
  by (induction m) auto

lemma issue_entry_printable:
  assumes "issue_entry i = Inr u" and "with_reason i rsn = Inr t"
  shows "print_item t = Inr ()"
proof -
  from assms(2) obtain kvs where i: "i = PDict kvs" and t: "t = PDict (dict_set ''reason'' rsn kvs)"
    by (cases i) auto
  from assms(1) obtain x where title: "py_item i ''title'' = Inr x" and a: "get_assignee i = Inr ()"
    by (auto simp: issue_entry_def bind_err_eq_Inr)
  define assignee where "assignee = (case map_of kvs ''assignee'' of Some v \<Rightarrow> v | None \<Rightarrow> PNone)"
  have d: "py_truthy assignee \<Longrightarrow> \<exists>akvs. assignee = PDict akvs"
    using a by (cases assignee) (auto simp: get_assignee_def i assignee_def bind_err_eq_Inr)
  have n: "get_assignee_name t = Inr ()"
    using d by (auto simp: get_assignee_name_def t map_of_dict_set assignee_def [symmetric])
  from title have "py_item t ''title'' = Inr x"
    by (simp add: i t map_of_dict_set)
  with n show ?thesis
    by (simp add: print_item_def) (simp add: t)
qed

lemma assign_issues_printable:
  "assign_issues dm is f x e = Inr (f', x', e') \<Longrightarrow>
   (\<And>i. i \<in> set is \<Longrightarrow> issue_entry i = Inr ()) \<Longrightarrow>
   list_all (\<lambda>t. print_item t = Inr ()) (f @ x @ e) \<Longrightarrow>
   list_all (\<lambda>t. print_item t = Inr ()) (f' @ x' @ e')"
proof (induction "is" arbitrary: f x e)
  case Nil
  then show ?case by simp
next
  case (Cons i "is")
  have i: "issue_entry i = Inr ()" using Cons.prems(2) by simp
  from Cons.prems(1) obtain rsn iw where iw: "with_reason i rsn = Inr iw" and
    step: "assign_issues dm is (f @ [iw]) x e = Inr (f', x', e') \<or>
     assign_issues dm is f (x @ [iw]) e = Inr (f', x', e') \<or>
     assign_issues dm is f x (e @ [iw]) = Inr (f', x', e')"
    by (auto simp: bind_err_eq_Inr split: if_splits)
  have p: "print_item iw = Inr ()" using i iw by (rule issue_entry_printable)
  from step show ?case
  proof (elim disjE)
    assume "assign_issues dm is (f @ [iw]) x e = Inr (f', x', e')"
    then show ?thesis using Cons.IH [of "f @ [iw]" x e] Cons.prems(2,3) p by auto
  next
    assume "assign_issues dm is f (x @ [iw]) e = Inr (f', x', e')"
    then show ?thesis using Cons.IH [of f "x @ [iw]" e] Cons.prems(2,3) p by auto
  next
    assume "assign_issues dm is f x (e @ [iw]) = Inr (f', x', e')"
    then show ?thesis using Cons.IH [of f x "e @ [iw]"] Cons.prems(2,3) p by auto
  qed
qed

lemma issues_text_entries:
  assumes "issues_text issues = Inr u" and "py_iter issues = Inr is" and "i \<in> set is"
  shows "issue_entry i = Inr ()"
proof -
  from assms(1,2) obtain us where "map_err issue_entry is = Inr us"
    by (auto simp: issues_text_def bind_err_eq_Inr)
  then have "list_all2 (\<lambda>x y. issue_entry x = Inr y) is us" by (rule map_err_all2)
  with assms(3) show ?thesis
    by (auto simp: list_all2_conv_all_nth in_set_conv_nth)
qed

lemma classify_response_printable:
  assumes "classify_response loads issues response = Inr c" and "issues_text issues = Inr u"
  shows "\<exists>f x e d. c = PDict [(''features'', PList f), (''fixes'', PList x), (''excluded'', PList e),
                               (''decisions'', d)] \<and>
                   list_all (\<lambda>t. print_item t = Inr ()) (f @ x @ e)"
proof -
  from assms(1) obtain rt where rt: "response_text response = Inr rt"
    by (auto simp: classify_response_def bind_err_eq_Inr)
  show ?thesis
  proof (cases "two_tier loads (CHR ''['') (CHR '']'') rt")
    case None
    with assms(1) rt have "c = empty_partitions" by (simp add: classify_response_def)
    then show ?thesis by (simp add: empty_partitions_def)
  next
    case (Some decisions)
    with assms(1) rt obtain dm "is" f x e where
      it: "py_iter issues = Inr is" and
      a: "assign_issues dm is [] [] [] = Inr (f, x, e)" and
      c: "c = PDict [(''features'', PList f), (''fixes'', PList x), (''excluded'', PList e),
                     (''decisions'', decisions)]"
      by (auto simp: classify_response_def bind_err_eq_Inr)
    have "list_all (\<lambda>t. print_item t = Inr ()) (f @ x @ e)"
      using a issues_text_entries [OF assms(2) it] by (rule assign_issues_printable) simp_all
    with c show ?thesis by blast
  qed
qed

lemma format_all_printable:
  "list_all (\<lambda>t. print_item t = Inr ()) xs \<Longrightarrow> format_all print_item (PList xs) = Inr ()"
proof -
  assume "list_all (\<lambda>t. print_item t = Inr ()) xs"
  then have "map_err print_item xs = Inr (map (\<lambda>t. ()) xs)"
    by (intro map_err_map) (simp add: list_all_iff)
  then show ?thesis by (simp add: format_all_def)
qed

lemma print_stages_partitions:
  assumes "list_all (\<lambda>t. print_item t = Inr ()) (f @ x @ e)"
  shows "print_stages (PDict [(''features'', PList f), (''fixes'', PList x), (''excluded'', PList e),
                              (''decisions'', d)]) = Inr (f = [] \<and> x = [])"
  using assms by (auto simp: print_stages_def format_all_printable)

lemma client_create_store:
  "client_create w = (r, w') \<Longrightarrow>
   state_file w' = state_file w \<and> state_write w' = state_write w \<and> today w' = today w"
  by (auto simp: client_create_def split: list.splits)

lemma filter_customer_worthy_store:
  "filter_customer_worthy loads issues w = (r, w') \<Longrightarrow>
   state_file w' = state_file w \<and> state_write w' = state_write w \<and> today w' = today w"
  by (auto simp: filter_customer_worthy_def split: if_splits sum.splits prod.splits
      dest: client_create_store)

lemma group_related_tickets_store:
  "group_related_tickets loads c w = (r, w') \<Longrightarrow>
   state_file w' = state_file w \<and> state_write w' = state_write w \<and> today w' = today w"
  by (auto simp: group_related_tickets_def split: sum.splits prod.splits option.splits
      dest: client_create_store)

lemma draft_release_notes_store:
  "draft_release_notes c g w = (r, w') \<Longrightarrow>
   state_file w' = state_file w \<and> state_write w' = state_write w \<and> today w' = today w"
  by (auto simp: draft_release_notes_def split: sum.splits prod.splits bool.splits
      dest: client_create_store)

lemma send_to_slack_store:
  "state_file (snd (send_to_slack n s e w)) = state_file w \<and>
   state_write (snd (send_to_slack n s e w)) = state_write w"
  by (simp add: send_to_slack_def split: sum.splits)

lemma filter_customer_worthy_printable:
  assumes "filter_customer_worthy loads issues w = (Inr c, w1)" and "py_truthy issues"
  shows "\<exists>f x e d. c = PDict [(''features'', PList f), (''fixes'', PList x), (''excluded'', PList e),
                               (''decisions'', d)] \<and>
                   list_all (\<lambda>t. print_item t = Inr ()) (f @ x @ e)"
proof -
  from assms obtain u response where "issues_text issues = Inr u"
    and "classify_response loads issues response = Inr c"
    by (auto simp: filter_customer_worthy_def split: sum.splits prod.splits)
  then show ?thesis using classify_response_printable by blast
qed


lemma main_no_tickets:
  "main_since loads w = Inr since \<Longrightarrow> tracker w since = Inr (PList []) \<Longrightarrow>
   main loads w = (Inr (), w)"
  by (simp add: main_def)

lemma main_nothing_worthy:
  assumes "main_since loads w = Inr since" and "tracker w since = Inr (PList tickets)"
    and "tickets \<noteq> []"
    and "filter_customer_worthy loads (PList tickets) w = (Inr categorized, w1)"
    and "part_of categorized ''features'' = []" and "part_of categorized ''fixes'' = []"
  shows "main loads w = (Inr (), w1) \<and> state_file w1 = state_file w"
proof -
  have t: "py_truthy (PList tickets)" using assms(3) by simp
  from filter_customer_worthy_printable [OF assms(4) t] obtain f x e d where
    c: "categorized = PDict [(''features'', PList f), (''fixes'', PList x), (''excluded'', PList e),
                             (''decisions'', d)]"
    and p: "list_all (\<lambda>t. print_item t = Inr ()) (f @ x @ e)"
    by blast
  from assms(5,6) have "f = []" "x = []" by (simp_all add: c part_of_def)
  with p have "print_stages categorized = Inr True"
    unfolding c by (simp only: print_stages_partitions) simp
  then have "main loads w = (Inr (), w1)"
    using assms(1-4) by (simp add: main_def)
  moreover have "state_file w1 = state_file w"
    using assms(4) filter_customer_worthy_store by blast
  ultimately show ?thesis by simp
qed

lemma main_changes_checkpoint:
  assumes "state_file (snd (main loads w)) \<noteq> state_file w"
  shows "\<exists>since issues categorized w1 grouped_data w2 release_notes w3.
     main_since loads w = Inr since \<and> tracker w since = Inr issues \<and>
     filter_customer_worthy loads issues w = (Inr categorized, w1) \<and>
     group_related_tickets loads categorized w1 = (Inr grouped_data, w2) \<and>
     draft_release_notes categorized grouped_data w2 = (Inr release_notes, w3) \<and>
     main loads w =
       save_last_run (strftime_ymd (today w))
         (snd (send_to_slack release_notes since (strftime_ymd (today w)) w3))"
proof -
  obtain since where since: "main_since loads w = Inr since"
    using assms by (cases "main_since loads w") (auto simp: main_def)
  obtain issues where issues: "tracker w since = Inr issues"
    using assms since by (cases "tracker w since") (auto simp: main_def)
  obtain found where found: "py_len issues = Inr found"
    using assms since issues by (cases "py_len issues") (auto simp: main_def)
  have truthy: "py_truthy issues"
    using assms since issues found by (auto simp: main_def split: if_splits)
  obtain r1 w1 where f: "filter_customer_worthy loads issues w = (r1, w1)" by force
  have s1: "state_file w1 = state_file w" "today w1 = today w"
    using f filter_customer_worthy_store by blast+
  obtain categorized where r1: "r1 = Inr categorized"
    using assms since issues found truthy f s1 by (cases r1) (auto simp: main_def)
  have stages: "print_stages categorized = Inr False"
    using assms since issues found truthy f s1 r1
    by (auto simp: main_def split: sum.splits bool.splits)
  obtain r2 w2 where g: "group_related_tickets loads categorized w1 = (r2, w2)" by force
  have s2: "state_file w2 = state_file w" "today w2 = today w"
    using g group_related_tickets_store s1 by (metis)+
  obtain grouped_data where r2: "r2 = Inr grouped_data"
    using assms since issues found truthy f r1 stages g s2 by (cases r2) (auto simp: main_def)
  have listing: "print_grouping grouped_data = Inr ()"
    using assms since issues found truthy f r1 stages g r2 s2
    by (auto simp: main_def split: sum.splits)
  obtain r3 w3 where d: "draft_release_notes categorized grouped_data w2 = (r3, w3)" by force
  have s3: "state_file w3 = state_file w" "today w3 = today w"
    using d draft_release_notes_store s2 by (metis)+
  obtain release_notes where r3: "r3 = Inr release_notes"
    using assms since issues found truthy f r1 stages g r2 listing d s3 by (cases r3) (auto simp: main_def)
  have "main loads w =
       save_last_run (strftime_ymd (today w))
         (snd (send_to_slack release_notes since (strftime_ymd (today w)) w3))"
    using since issues found truthy f r1 stages g r2 listing d r3 s3 by (simp add: main_def)
  with since issues f r1 g r2 d r3 show ?thesis by blast
qed

text \<open>
  C10. A run whose tracker query returns no ticket returns at once and leaves
  the environment, and with it the stored checkpoint, as it was. A run whose
  classification returns no feature and no fix returns after the stage
  listings, with the checkpoint as it was. A run that changes the stored
  checkpoint has fetched, classified, grouped and drafted without an exception
  and ends in \<open>save_last_run\<close> of today's date, called on the environment that
  \<open>send_to_slack\<close> left: the checkpoint is written only after drafting and
  delivery.
\<close>

theorem checkpoint_frame:
  "(main_since loads w = Inr since \<and> tracker w since = Inr (PList []) \<longrightarrow>
      main loads w = (Inr (), w)) \<and>
   (main_since loads w = Inr since \<and> tracker w since = Inr (PList tickets) \<and> tickets \<noteq> [] \<and>
    filter_customer_worthy loads (PList tickets) w = (Inr categorized, w1) \<and>
    part_of categorized ''features'' = [] \<and> part_of categorized ''fixes'' = [] \<longrightarrow>
      main loads w = (Inr (), w1) \<and> state_file w1 = state_file w) \<and>
   (state_file (snd (main loads w)) \<noteq> state_file w \<longrightarrow>
      (\<exists>since issues categorized w1 grouped_data w2 release_notes w3.
         main_since loads w = Inr since \<and> tracker w since = Inr issues \<and>
         filter_customer_worthy loads issues w = (Inr categorized, w1) \<and>
         group_related_tickets loads categorized w1 = (Inr grouped_data, w2) \<and>
         draft_release_notes categorized grouped_data w2 = (Inr release_notes, w3) \<and>
         main loads w =
           save_last_run (strftime_ymd (today w))
             (snd (send_to_slack release_notes since (strftime_ymd (today w)) w3))))"
  using main_no_tickets main_nothing_worthy main_changes_checkpoint by blast


lemma group_related_tickets_call:
  "group_prompt c = Inr (Some (fx, all_tickets)) \<Longrightarrow> inference w = Inr response # rest \<Longrightarrow>
   group_related_tickets loads c w =
     (group_response loads fx all_tickets response, w\<lparr>inference := rest, calls := Suc (calls w)\<rparr>)"
  by (simp add: group_related_tickets_def client_create_def)

lemma draft_release_notes_call:
  "draft_prompt c g = Inr True \<Longrightarrow> inference w = Inr response # rest \<Longrightarrow>
   draft_release_notes c g w = (response_text response, w\<lparr>inference := rest, calls := Suc (calls w)\<rparr>)"
  by (simp add: draft_release_notes_def client_create_def)

lemma main_reaches_save:
  assumes "main_since loads w = Inr since" and "tracker w since = Inr (PList tickets)"
    and "tickets \<noteq> []"
    and "filter_customer_worthy loads (PList tickets) w = (Inr c, w1)" and "print_stages c = Inr False"
    and "group_related_tickets loads c w1 = (Inr g, w2)" and "print_grouping g = Inr ()"
    and "draft_release_notes c g w2 = (Inr notes, w3)"
  shows "main loads w =
       save_last_run (strftime_ymd (today w))
         (snd (send_to_slack notes since (strftime_ymd (today w)) w3)) \<and>
     state_write (snd (send_to_slack notes since (strftime_ymd (today w)) w3)) = state_write w"
proof -
  have 1: "state_write w1 = state_write w" "today w1 = today w"
    using assms(4) filter_customer_worthy_store by blast+
  have 2: "state_write w2 = state_write w" "today w2 = today w"
    using assms(6) group_related_tickets_store 1 by metis+
  have 3: "state_write w3 = state_write w" "today w3 = today w"
    using assms(8) draft_release_notes_store 2 by metis+
  have "main loads w =
       save_last_run (strftime_ymd (today w))
         (snd (send_to_slack notes since (strftime_ymd (today w)) w3))"
    using assms 3 by (simp add: main_def)
  then show ?thesis
    using 3 send_to_slack_store by simp
qed

lemma main_saves:
  assumes "main_since loads w = Inr since" and "tracker w since = Inr (PList tickets)"
    and "tickets \<noteq> []"
    and "filter_customer_worthy loads (PList tickets) w = (Inr c, w1)" and "print_stages c = Inr False"
    and "group_related_tickets loads c w1 = (Inr g, w2)" and "print_grouping g = Inr ()"
    and "draft_release_notes c g w2 = (Inr notes, w3)" and "state_write w = Written"
  shows "fst (main loads w) = Inr () \<and>
     state_file (snd (main loads w)) = Some (checkpoint_text (strftime_ymd (today w)))"
proof -
  let ?w = "snd (send_to_slack notes since (strftime_ymd (today w)) w3)"
  have m: "main loads w = save_last_run (strftime_ymd (today w)) ?w" "state_write ?w = Written"
    using main_reaches_save [OF assms(1-8)] assms(9) by simp_all
  show ?thesis
    unfolding m(1) save_last_run_written [OF m(2)] by simp
qed

lemma main_save_fails:
  assumes "main_since loads w = Inr since" and "tracker w since = Inr (PList tickets)"
    and "tickets \<noteq> []"
    and "filter_customer_worthy loads (PList tickets) w = (Inr c, w1)" and "print_stages c = Inr False"
    and "group_related_tickets loads c w1 = (Inr g, w2)" and "print_grouping g = Inr ()"
    and "draft_release_notes c g w2 = (Inr notes, w3)" and "state_write w \<noteq> Written"
  shows "fst (main loads w) = Inl OSError"
proof -
  let ?w = "snd (send_to_slack notes since (strftime_ymd (today w)) w3)"
  have m: "main loads w = save_last_run (strftime_ymd (today w)) ?w" "state_write ?w \<noteq> Written"
    using main_reaches_save [OF assms(1-8)] assms(9) by simp_all
  show ?thesis
    unfolding m(1) by (rule save_last_run_failed [OF m(2)])
qed


theorem checkpoint_frame_witness:
  \<open>main json_loads world0 = (Inr (), world0) \<and>
   main json_loads world_excluded =
     (Inr (), world_excluded\<lparr>inference := [], calls := Suc (calls world_excluded)\<rparr>) \<and>
   state_file (world_excluded\<lparr>inference := [], calls := Suc (calls world_excluded)\<rparr>) = state_file world_excluded \<and>
   fst (main json_loads world_fix) = Inr () \<and>
   state_file (snd (main json_loads world_fix)) = Some ''{"last_run": "2026-11-04"}'' \<and>
   (\<exists>since issues categorized w1 grouped_data w2 release_notes w3.
      main_since json_loads world_fix = Inr since \<and> tracker world_fix since = Inr issues \<and>
      filter_customer_worthy json_loads issues world_fix = (Inr categorized, w1) \<and>
      group_related_tickets json_loads categorized w1 = (Inr grouped_data, w2) \<and>
      draft_release_notes categorized grouped_data w2 = (Inr release_notes, w3) \<and>
      main json_loads world_fix =
        save_last_run (strftime_ymd (today world_fix))
          (snd (send_to_slack release_notes since (strftime_ymd (today world_fix)) w3)))\<close>
proof -
  let ?since = "PStr ''2026-10-28''"
  let ?w1 = "world_excluded\<lparr>inference := [], calls := Suc (calls world_excluded)\<rparr>"
  let ?c = "PDict [(''features'', PList []), (''fixes'', PList []),
     (''excluded'', PList [PDict [(''id'', PStr ''C''), (''title'', PStr ''Refactor internal auth schema''),
                                  (''reason'', PStr ''Internal schema work'')]]),
     (''decisions'', PList [PDict [(''id'', PStr ''C''), (''decision'', PStr ''exclude''),
                                   (''reason'', PStr ''Internal schema work'')]])]"
  have a1: "main_since json_loads world0 = Inr ?since" by code_simp
  have a2: "tracker world0 ?since = Inr (PList [])" by (simp add: world0_def)
  have a: "main json_loads world0 = (Inr (), world0)"
    using checkpoint_frame [where loads = json_loads and w = world0 and since = ?since] a1 a2 by blast
  have b1: "main_since json_loads world_excluded = Inr ?since" by code_simp
  have b2: "tracker world_excluded ?since = Inr (PList [ticket_schema])"
    by (simp add: world_excluded_def)
  have b3: "[ticket_schema] \<noteq> []" by simp
  have b4: "issues_text (PList [ticket_schema]) = Inr ()" by code_simp
  have b5: "inference world_excluded = Inr [(''text'', decisions_c)] # []"
    by (simp add: world_excluded_def answering_def)
  have b6: "classify_response json_loads (PList [ticket_schema]) [(''text'', decisions_c)] = Inr ?c"
    by code_simp
  have b7: "filter_customer_worthy json_loads (PList [ticket_schema]) world_excluded = (Inr ?c, ?w1)"
    using filter_customer_worthy_call [OF _ b4 b5, of json_loads] b6 by simp
  have b8: "part_of ?c ''features'' = []" "part_of ?c ''fixes'' = []" by code_simp+
  have b: "main json_loads world_excluded = (Inr (), ?w1) \<and> state_file ?w1 = state_file world_excluded"
    using checkpoint_frame [where loads = json_loads and w = world_excluded and since = ?since
        and tickets = "[ticket_schema]" and categorized = ?c and ?w1.0 = ?w1] b1 b2 b3 b7 b8
    by blast
  let ?fix = "PDict [(''id'', PStr ''B''), (''title'', PStr ''Fix typo in error toast''),
                     (''reason'', PStr ''Copy fix'')]"
  let ?cat = "PDict [(''features'', PList []), (''fixes'', PList [?fix]), (''excluded'', PList []),
     (''decisions'', PList [PDict [(''id'', PStr ''B''), (''decision'', PStr ''fix''),
                                   (''reason'', PStr ''Copy fix'')]])]"
  let ?g = "PDict [(''groups'', PList []), (''ungrouped_fixes'', PList [?fix])]"
  let ?notes = "''*Bug fixes / quality of life*''"
  let ?v1 = "world_fix\<lparr>inference := [Inr [(''text'', grouping_b)], Inr [(''text'', ?notes)]],
                         calls := Suc (calls world_fix)\<rparr>"
  let ?v2 = "?v1\<lparr>inference := [Inr [(''text'', ?notes)]], calls := Suc (calls ?v1)\<rparr>"
  let ?v3 = "?v2\<lparr>inference := [], calls := Suc (calls ?v2)\<rparr>"
  have c1: "main_since json_loads world_fix = Inr ?since" by code_simp
  have c2: "tracker world_fix ?since = Inr (PList [ticket_typo])"
    by (simp add: world_fix_def)
  have c3: "[ticket_typo] \<noteq> []" by simp
  have c4: "issues_text (PList [ticket_typo]) = Inr ()" by code_simp
  have c5: "inference world_fix =
     Inr [(''text'', decisions_b)] # [Inr [(''text'', grouping_b)], Inr [(''text'', ?notes)]]"
    by (simp add: world_fix_def answering_def)
  have c6: "classify_response json_loads (PList [ticket_typo]) [(''text'', decisions_b)] = Inr ?cat"
    by code_simp
  have c7: "filter_customer_worthy json_loads (PList [ticket_typo]) world_fix = (Inr ?cat, ?v1)"
    using filter_customer_worthy_call [OF _ c4 c5, of json_loads] c6 by simp
  have c8: "print_stages ?cat = Inr False" by code_simp
  have c9: "group_prompt ?cat = Inr (Some (PList [?fix], [?fix]))" by code_simp
  have c10: "inference ?v1 = Inr [(''text'', grouping_b)] # [Inr [(''text'', ?notes)]]" by simp
  have c11: "group_response json_loads (PList [?fix]) [?fix] [(''text'', grouping_b)] = Inr ?g"
    by code_simp
  have c12: "group_related_tickets json_loads ?cat ?v1 = (Inr ?g, ?v2)"
    using group_related_tickets_call [OF c9 c10, of json_loads] c11 by simp
  have c13: "print_grouping ?g = Inr ()" by code_simp
  have c14: "draft_prompt ?cat ?g = Inr True" by code_simp
  have c15: "inference ?v2 = Inr [(''text'', ?notes)] # []" by simp
  have c16: "response_text [(''text'', ?notes)] = Inr ?notes" by code_simp
  have c17: "draft_release_notes ?cat ?g ?v2 = (Inr ?notes, ?v3)"
    using draft_release_notes_call [OF c14 c15] c16 by simp
  have c18: "state_write world_fix = Written" by (simp add: world_fix_def answering_def world0_def)
  have c19: "today world_fix = 739924" by (simp add: world_fix_def answering_def world0_def)
  have c20: \<open>checkpoint_text (strftime_ymd 739924) = ''{"last_run": "2026-11-04"}''\<close>
    by code_simp
  have c21: "state_file world_fix = None" by (simp add: world_fix_def answering_def world0_def)
  have c22: \<open>fst (main json_loads world_fix) = Inr () \<and>
     state_file (snd (main json_loads world_fix)) = Some ''{"last_run": "2026-11-04"}''\<close>
    using main_saves [OF c1 c2 c3 c7 c8 c12 c13 c17 c18] by (simp only: c19 c20)
  then have c23: "state_file (snd (main json_loads world_fix)) \<noteq> state_file world_fix"
    by (simp add: c21)
  have c: "\<exists>since issues categorized w1 grouped_data w2 release_notes w3.
      main_since json_loads world_fix = Inr since \<and> tracker world_fix since = Inr issues \<and>
      filter_customer_worthy json_loads issues world_fix = (Inr categorized, w1) \<and>
      group_related_tickets json_loads categorized w1 = (Inr grouped_data, w2) \<and>
      draft_release_notes categorized grouped_data w2 = (Inr release_notes, w3) \<and>
      main json_loads world_fix =
        save_last_run (strftime_ymd (today world_fix))
          (snd (send_to_slack release_notes since (strftime_ymd (today world_fix)) w3))"
    using checkpoint_frame [where loads = json_loads and w = world_fix] c23 by blast
  from a b c22 c show ?thesis by (simp only: simp_thms)
qed


section \<open>A failing write of the checkpoint\<close>

text \<open>
  C9, as amended. When the write of the state file fails, be it that \<open>open\<close>
  fails or that the write or the flush after it does, \<open>save_last_run\<close> does
  not return: it has no handler, and the \<open>OSError\<close> reaches the caller. The
  caller is \<open>main\<close>, which has no handler either: a run that has fetched,
  classified, grouped and drafted ends in that exception.
\<close>

theorem save_failure_propagates:
  "(state_write w \<noteq> Written \<longrightarrow> fst (save_last_run ts w) = Inl OSError) \<and>
   (state_write w \<noteq> Written \<and>
    main_since loads w = Inr since \<and> tracker w since = Inr (PList tickets) \<and> tickets \<noteq> [] \<and>
    filter_customer_worthy loads (PList tickets) w = (Inr c, w1) \<and> print_stages c = Inr False \<and>
    group_related_tickets loads c w1 = (Inr g, w2) \<and> print_grouping g = Inr () \<and>
    draft_release_notes c g w2 = (Inr release_notes, w3) \<longrightarrow>
      fst (main loads w) = Inl OSError)"
  using save_last_run_failed main_save_fails by blast

theorem save_failure_propagates_witness:
  \<open>fst (save_last_run ''2026-11-04'' world_full) = Inl OSError \<and>
   fst (main json_loads world_locked) = Inl OSError\<close>
proof -
  let ?since = "PStr ''2026-10-20''"
  let ?fix = "PDict [(''id'', PStr ''B''), (''title'', PStr ''Fix typo in error toast''),
                     (''reason'', PStr ''Copy fix'')]"
  let ?cat = "PDict [(''features'', PList []), (''fixes'', PList [?fix]), (''excluded'', PList []),
     (''decisions'', PList [PDict [(''id'', PStr ''B''), (''decision'', PStr ''fix''),
                                   (''reason'', PStr ''Copy fix'')]])]"
  let ?g = "PDict [(''groups'', PList []), (''ungrouped_fixes'', PList [?fix])]"
  let ?notes = "''*Bug fixes / quality of life*''"
  let ?v1 = "world_locked\<lparr>inference := [Inr [(''text'', grouping_b)], Inr [(''text'', ?notes)]],
                            calls := Suc (calls world_locked)\<rparr>"
  let ?v2 = "?v1\<lparr>inference := [Inr [(''text'', ?notes)]], calls := Suc (calls ?v1)\<rparr>"
  let ?v3 = "?v2\<lparr>inference := [], calls := Suc (calls ?v2)\<rparr>"
  have s: "state_write world_full \<noteq> Written" by (simp add: world_full_def)
  have l: "state_write world_locked \<noteq> Written" by (simp add: world_locked_def)
  have c1: "main_since json_loads world_locked = Inr ?since" by code_simp
  have c2: "tracker world_locked ?since = Inr (PList [ticket_typo])"
    by (simp add: world_locked_def world_fix_def)
  have c3: "[ticket_typo] \<noteq> []" by simp
  have c4: "issues_text (PList [ticket_typo]) = Inr ()" by code_simp
  have c5: "inference world_locked =
     Inr [(''text'', decisions_b)] # [Inr [(''text'', grouping_b)], Inr [(''text'', ?notes)]]"
    by (simp add: world_locked_def world_fix_def answering_def)
  have c6: "classify_response json_loads (PList [ticket_typo]) [(''text'', decisions_b)] = Inr ?cat"
    by code_simp
  have c7: "filter_customer_worthy json_loads (PList [ticket_typo]) world_locked = (Inr ?cat, ?v1)"
    using filter_customer_worthy_call [OF _ c4 c5, of json_loads] c6 by simp
  have c8: "print_stages ?cat = Inr False" by code_simp
  have c9: "group_prompt ?cat = Inr (Some (PList [?fix], [?fix]))" by code_simp
  have c10: "inference ?v1 = Inr [(''text'', grouping_b)] # [Inr [(''text'', ?notes)]]" by simp
  have c11: "group_response json_loads (PList [?fix]) [?fix] [(''text'', grouping_b)] = Inr ?g"
    by code_simp
  have c12: "group_related_tickets json_loads ?cat ?v1 = (Inr ?g, ?v2)"
    using group_related_tickets_call [OF c9 c10, of json_loads] c11 by simp
  have c13: "print_grouping ?g = Inr ()" by code_simp
  have c14: "draft_prompt ?cat ?g = Inr True" by code_simp
  have c15: "inference ?v2 = Inr [(''text'', ?notes)] # []" by simp
  have c16: "response_text [(''text'', ?notes)] = Inr ?notes" by code_simp
  have c17: "draft_release_notes ?cat ?g ?v2 = (Inr ?notes, ?v3)"
    using draft_release_notes_call [OF c14 c15] c16 by simp
  have a: "fst (save_last_run ''2026-11-04'' world_full) = Inl OSError"
    using save_failure_propagates [where w = world_full and ts = "''2026-11-04''"] s by blast
  have b: "fst (main json_loads world_locked) = Inl OSError"
    using save_failure_propagates [where w = world_locked and loads = json_loads and since = ?since
        and tickets = "[ticket_typo]" and c = ?cat and ?w1.0 = ?v1 and g = ?g and ?w2.0 = ?v2
        and release_notes = ?notes and ?w3.0 = ?v3] l c1 c2 c3 c7 c8 c12 c13 c17
    by blast
  from a b show ?thesis by (simp only: simp_thms)
qed

text \<open>
  C9 as stated fails. With a state file that cannot be opened, the call ends
  in the exception and does not return. With a write that fails after the file
  was emptied, the call ends in the exception too, and the checkpoint that was
  stored is gone.
\<close>

theorem save_last_run_raises:
  \<open>fst (save_last_run ''2026-11-04'' world_locked) = Inl OSError \<and>
   state_file (snd (save_last_run ''2026-11-04'' world_locked)) = Some ''{"last_run": "2026-10-20"}'' \<and>
   fst (save_last_run ''2026-11-04'' world_full) = Inl OSError \<and>
   state_file world_full = Some ''{"last_run": "2026-10-20"}'' \<and>
   state_file (snd (save_last_run ''2026-11-04'' world_full)) = Some []\<close>
  by (simp add: save_last_run_def world_locked_def world_full_def)

end
